theory Spec2Isabelle
  imports Complex_Main "HOL-Library.Sublist"
begin

chapter \<open>CodeXR: the query grounding and response assembly pipeline\<close>

text \<open>
  A shallow embedding of the Python sources \<^verbatim>\<open>app.py\<close>, \<^verbatim>\<open>streamlit_app.py\<close>,
  \<^verbatim>\<open>schemas.py\<close>, \<^verbatim>\<open>phase2_3_framework.py\<close> and \<^verbatim>\<open>langchain_search.py\<close>.
  Part I holds the definitions, in the order of the components; Part II the properties.

  Conventions of the embedding.
  \<^item> A Python \<^verbatim>\<open>str\<close> is a \<^typ>\<open>string\<close>; a \<^typ>\<open>char\<close> stands for a code point
    below 256, so \<^verbatim>\<open>len\<close> is \<^const>\<open>length\<close>. Text with code points from 256 on is
    outside the model.
  \<^item> A Python \<^verbatim>\<open>dict\<close> whose iteration order matters is an association list in
    insertion order.
  \<^item> An exception is a value \<open>Inl e\<close> of a sum type.
\<close>

section \<open>Part I: the embedding\<close>

subsection \<open>Python string primitives\<close>

text \<open>
  \<^verbatim>\<open>str.lower()\<close> on code points below 256: the letters A to Z and the Latin-1
  capitals (192 to 222, without the multiplication sign 215) move up by 32, which sets
  the bit of weight 32; every other code point stays.
\<close>

definition is_upper :: "char \<Rightarrow> bool" where
  "is_upper c = (let n = (of_char c :: nat) in
     (65 \<le> n \<and> n \<le> 90) \<or> (192 \<le> n \<and> n \<le> 222 \<and> n \<noteq> 215))"

fun lower_char :: "char \<Rightarrow> char" where
  "lower_char (Char b0 b1 b2 b3 b4 b5 b6 b7) =
     (if is_upper (Char b0 b1 b2 b3 b4 b5 b6 b7) then Char b0 b1 b2 b3 b4 True b6 b7
      else Char b0 b1 b2 b3 b4 b5 b6 b7)"

definition lower :: "string \<Rightarrow> string" where
  "lower s = map lower_char s"

text \<open>
  \<^verbatim>\<open>needle in hay\<close> on strings: \<open>needle\<close> occurs as a contiguous block of \<open>hay\<close>
  (the empty string occurs everywhere).
\<close>

fun str_in :: "string \<Rightarrow> string \<Rightarrow> bool" where
  "str_in needle [] = (needle = [])"
| "str_in needle (c # cs) = (prefix needle (c # cs) \<or> str_in needle cs)"

text \<open>\<^verbatim>\<open>any(w in s for w in ws)\<close>.\<close>

definition any_in :: "string list \<Rightarrow> string \<Rightarrow> bool" where
  "any_in ws s = list_ex (\<lambda>w. str_in w s) ws"

text \<open>
  \<^verbatim>\<open>str.split()\<close> without arguments: the maximal runs of non-whitespace. The
  whitespace code points below 256 are 9 to 13, 28 to 32, 133 and 160.
\<close>

definition is_space :: "char \<Rightarrow> bool" where
  "is_space c = (let n = (of_char c :: nat) in
     (9 \<le> n \<and> n \<le> 13) \<or> (28 \<le> n \<and> n \<le> 32) \<or> n = 133 \<or> n = 160)"

fun split_acc :: "string \<Rightarrow> string \<Rightarrow> string list" where
  "split_acc w [] = (if w = [] then [] else [w])"
| "split_acc w (c # cs) =
     (if is_space c then (if w = [] then split_acc [] cs else w # split_acc [] cs)
      else split_acc (w @ [c]) cs)"

definition split :: "string \<Rightarrow> string list" where
  "split s = split_acc [] s"

subsection \<open>Category Classifier (\<^verbatim>\<open>categorize_query\<close>)\<close>

text \<open>
  \<^verbatim>\<open>sum(kw in query_lower for kw in keywords)\<close> counts the keywords that occur in the
  lowercased query.
\<close>

definition keyword_hits :: "string list \<Rightarrow> string \<Rightarrow> nat" where
  "keyword_hits keywords query_lower = length (filter (\<lambda>kw. str_in kw query_lower) keywords)"

text \<open>
  \<^verbatim>\<open>max(scores, key=scores.get)\<close> walks the keys in insertion order and keeps the first
  key whose score is maximal: the candidate is replaced only by a strictly greater score.
\<close>

fun max_key_from :: "string \<times> nat \<Rightarrow> (string \<times> nat) list \<Rightarrow> string \<times> nat" where
  "max_key_from best [] = best"
| "max_key_from best (kv # kvs) = max_key_from (if snd best < snd kv then kv else best) kvs"

definition categorize_with :: "string list \<Rightarrow> string list \<Rightarrow> string list \<Rightarrow> string \<Rightarrow> string" where
  "categorize_with unity_keywords unreal_keywords shader_keywords query =
     (let query_lower = lower query;
          (max_cat, score) = max_key_from
             (''Unity'', keyword_hits unity_keywords query_lower)
             [(''Unreal'', keyword_hits unreal_keywords query_lower),
              (''Shader'', keyword_hits shader_keywords query_lower)]
      in if 0 < score then max_cat else ''General'')"

text \<open>The keyword lists of \<^verbatim>\<open>app.py\<close>.\<close>

definition unity_keywords :: "string list" where
  "unity_keywords = [''unity'', ''c#'', ''xr toolkit'', ''teleport'', ''vr'', ''ar'', ''interaction'']"

definition unreal_keywords :: "string list" where
  "unreal_keywords = [''unreal'', ''c++'', ''ue4'', ''ue5'', ''blueprint'', ''multiplayer'']"

definition shader_keywords :: "string list" where
  "shader_keywords = [''shader'', ''hlsl'', ''glsl'', ''material'', ''rendering'', ''occlusion'']"

definition categorize_query :: "string \<Rightarrow> string" where
  "categorize_query = categorize_with unity_keywords unreal_keywords shader_keywords"

text \<open>The keyword lists of \<^verbatim>\<open>streamlit_app.py\<close>, whose function has the same body.\<close>

definition st_unity_keywords :: "string list" where
  "st_unity_keywords = [''unity'', ''c#'', ''xr toolkit'', ''teleport'', ''vr'', ''ar'',
     ''interaction'', ''gameobject'']"

definition st_unreal_keywords :: "string list" where
  "st_unreal_keywords = [''unreal'', ''c++'', ''ue4'', ''ue5'', ''blueprint'', ''multiplayer'',
     ''uclass'', ''generated_body'']"

definition st_shader_keywords :: "string list" where
  "st_shader_keywords = [''shader'', ''hlsl'', ''glsl'', ''material'', ''rendering'', ''occlusion'',
     ''vertex'', ''fragment'']"

definition st_categorize_query :: "string \<Rightarrow> string" where
  "st_categorize_query = categorize_with st_unity_keywords st_unreal_keywords st_shader_keywords"

subsection \<open>Static Knowledge Selector (\<^verbatim>\<open>generate_response\<close> of \<^verbatim>\<open>app.py\<close>)\<close>

record task =
  task_description :: string
  task_code_snippet :: "string option"

record kb_entry =
  kb_subtasks :: "task list"
  kb_main_code :: string
  kb_best_practices :: "string list"
  kb_gotchas :: "string list"
  kb_docs :: "string list"

record SubTask =
  st_description :: string
  st_code_snippet :: "string option"
  st_explanation :: "string option"

record CodeXRResponse =
  r_query :: string
  r_category :: string
  r_subtasks :: "SubTask list"
  r_code_snippet :: string
  r_best_practices :: "string list"
  r_gotchas :: "string list"
  r_difficulty_rating :: int
  r_documentation_links :: "string list"
  r_estimated_time :: string

definition UNITY_KNOWLEDGE_teleport_main_code :: string where
  \<open>UNITY_KNOWLEDGE_teleport_main_code = concat [
     ''using UnityEngine;\<newline>'',
     ''using UnityEngine.XR.Interaction.Toolkit;\<newline>'',
     ''\<newline>'',
     ''public class TeleportSetup : MonoBehaviour\<newline>'',
     ''{\<newline>'',
     ''    public TeleportationProvider teleportProvider;\<newline>'',
     ''    public XRRayInteractor rayInteractor;\<newline>'',
     ''    \<newline>'',
     ''    void Start()\<newline>'',
     ''    {\<newline>'',
     ''        if (teleportProvider == null)\<newline>'',
     ''            teleportProvider = FindObjectOfType<TeleportationProvider>();\<newline>'',
     ''            \<newline>'',
     ''        if (rayInteractor != null)\<newline>'',
     ''        {\<newline>'',
     ''            rayInteractor.enableUIInteraction = false;\<newline>'',
     ''            rayInteractor.lineType = XRRayInteractor.LineType.ProjectileCurve;\<newline>'',
     ''        }\<newline>'',
     ''    }\<newline>'',
     ''}'']\<close>

definition UNITY_KNOWLEDGE_teleport :: kb_entry where
  \<open>UNITY_KNOWLEDGE_teleport = \<lparr>
     kb_subtasks = [\<lparr>task_description = ''Set up XR Interaction Toolkit'',
        task_code_snippet = Some ''// Install XR Interaction Toolkit package via Package Manager''\<rparr>,
       \<lparr>task_description = ''Create XR Origin (Camera Rig)'',
        task_code_snippet = Some ''GameObject.Find("XR Origin")''\<rparr>,
       \<lparr>task_description = ''Add Teleportation Provider'',
        task_code_snippet = Some ''GetComponent<TeleportationProvider>()''\<rparr>,
       \<lparr>task_description = ''Configure Teleport Areas'',
        task_code_snippet = Some ''// Add TeleportationArea components to valid surfaces''\<rparr>],
     kb_main_code = UNITY_KNOWLEDGE_teleport_main_code,
     kb_best_practices = [''Use NavMesh for teleportation boundaries'',
       ''Provide visual feedback for valid teleport areas'',
       ''Consider comfort settings to reduce motion sickness'',
       ''Test on different VR headsets for compatibility''],
     kb_gotchas = [''Ensure TeleportationProvider is assigned in the scene'',
       ''NavMesh must be baked for teleportation to work'',
       ''Ray interactor may conflict with UI interactions'',
       ''Performance impact on mobile VR platforms''],
     kb_docs = [''https://docs.unity3d.com/Packages/com.unity.xr.interaction.toolkit@2.5/manual/teleportation.html'',
       ''https://docs.unity3d.com/Manual/nav-BuildingNavMesh.html'']\<rparr>\<close>

definition UNITY_KNOWLEDGE :: "(string \<times> kb_entry) list" where
  "UNITY_KNOWLEDGE = [(''teleport'', UNITY_KNOWLEDGE_teleport)]"

definition UNREAL_KNOWLEDGE_multiplayer_main_code :: string where
  \<open>UNREAL_KNOWLEDGE_multiplayer_main_code = concat [
     ''// VRGameMode.h\<newline>'',
     ''UCLASS()\<newline>'',
     ''class VRGAME_API AVRGameMode : public AGameModeBase\<newline>'',
     ''{\<newline>'',
     ''    GENERATED_BODY()\<newline>'',
     ''    \<newline>'',
     ''public:\<newline>'',
     ''    AVRGameMode();\<newline>'',
     ''    \<newline>'',
     ''protected:\<newline>'',
     ''    virtual void PostLogin(APlayerController* NewPlayer) override;\<newline>'',
     ''    virtual void Logout(AController* Exiting) override;\<newline>'',
     ''    \<newline>'',
     ''    UPROPERTY(EditDefaultsOnly, BlueprintReadOnly)\<newline>'',
     ''    int32 MaxPlayers = 4;\<newline>'',
     ''};\<newline>'',
     ''\<newline>'',
     ''// VRGameMode.cpp\<newline>'',
     ''AVRGameMode::AVRGameMode()\<newline>'',
     ''{\<newline>'',
     ''    DefaultPawnClass = AVRPawn::StaticClass();\<newline>'',
     ''    PlayerControllerClass = AVRPlayerController::StaticClass();\<newline>'',
     ''}\<newline>'',
     ''\<newline>'',
     ''void AVRGameMode::PostLogin(APlayerController* NewPlayer)\<newline>'',
     ''{\<newline>'',
     ''    Super::PostLogin(NewPlayer);\<newline>'',
     ''    UE_LOG(LogTemp, Log, TEXT("Player joined VR session"));\<newline>'',
     ''}'']\<close>

definition UNREAL_KNOWLEDGE_multiplayer :: kb_entry where
  \<open>UNREAL_KNOWLEDGE_multiplayer = \<lparr>
     kb_subtasks = [\<lparr>task_description = ''Enable VR Template'',
        task_code_snippet = Some ''// Create new VR project in Unreal Engine''\<rparr>,
       \<lparr>task_description = ''Configure Network Settings'',
        task_code_snippet = Some ''// Enable multiplayer in Project Settings''\<rparr>,
       \<lparr>task_description = ''Setup Game Mode'',
        task_code_snippet = Some ''// Create custom VRGameMode class''\<rparr>,
       \<lparr>task_description = ''Implement Player Replication'',
        task_code_snippet = Some ''// Configure pawn replication''\<rparr>],
     kb_main_code = UNREAL_KNOWLEDGE_multiplayer_main_code,
     kb_best_practices = [''Use dedicated servers for stable multiplayer'',
       ''Implement proper VR controller replication'',
       ''Optimize network traffic for VR-specific data'',
       ''Handle VR-specific player disconnections gracefully''],
     kb_gotchas = [''VR pawns require special network setup'',
       ''Hand tracking data needs careful replication'',
       ''Locomotion can cause network prediction issues'',
       ''Performance drops significantly with multiple VR players''],
     kb_docs = [''https://docs.unrealengine.com/5.0/en-us/multiplayer-programming-quick-start-for-unreal-engine/'',
       ''https://docs.unrealengine.com/5.0/en-us/vr-development-in-unreal-engine/'']\<rparr>\<close>

definition UNREAL_KNOWLEDGE :: "(string \<times> kb_entry) list" where
  "UNREAL_KNOWLEDGE = [(''multiplayer'', UNREAL_KNOWLEDGE_multiplayer)]"

definition SHADER_KNOWLEDGE_occlusion_main_code :: string where
  \<open>SHADER_KNOWLEDGE_occlusion_main_code = concat [
     ''Shader "AR/OcclusionShader"\<newline>'',
     ''{\<newline>'',
     ''    Properties\<newline>'',
     ''    {\<newline>'',
     ''        _MainTex ("Texture", 2D) = "white" {}\<newline>'',
     ''        _Alpha ("Alpha", Range(0,1)) = 0.5\<newline>'',
     ''    }\<newline>'',
     ''    SubShader\<newline>'',
     ''    {\<newline>'',
     ''        Tags { "RenderType"="Transparent" "Queue"="Geometry-1" }\<newline>'',
     ''        LOD 100\<newline>'',
     ''        \<newline>'',
     ''        Pass\<newline>'',
     ''        {\<newline>'',
     ''            ZWrite On\<newline>'',
     ''            ZTest LEqual\<newline>'',
     ''            ColorMask 0\<newline>'',
     ''            \<newline>'',
     ''            CGPROGRAM\<newline>'',
     ''            #pragma vertex vert\<newline>'',
     ''            #pragma fragment frag\<newline>'',
     ''            \<newline>'',
     ''            #include "UnityCG.cginc"\<newline>'',
     ''            \<newline>'',
     ''            struct appdata\<newline>'',
     ''            {\<newline>'',
     ''                float4 vertex : POSITION;\<newline>'',
     ''            };\<newline>'',
     ''            \<newline>'',
     ''            struct v2f\<newline>'',
     ''            {\<newline>'',
     ''                float4 vertex : SV_POSITION;\<newline>'',
     ''            };\<newline>'',
     ''            \<newline>'',
     ''            v2f vert (appdata v)\<newline>'',
     ''            {\<newline>'',
     ''                v2f o;\<newline>'',
     ''                o.vertex = UnityObjectToClipPos(v.vertex);\<newline>'',
     ''                return o;\<newline>'',
     ''            }\<newline>'',
     ''            \<newline>'',
     ''            fixed4 frag (v2f i) : SV_Target\<newline>'',
     ''            {\<newline>'',
     ''                return fixed4(0,0,0,0);\<newline>'',
     ''            }\<newline>'',
     ''            ENDCG\<newline>'',
     ''        }\<newline>'',
     ''    }\<newline>'',
     ''}'']\<close>

definition SHADER_KNOWLEDGE_occlusion :: kb_entry where
  \<open>SHADER_KNOWLEDGE_occlusion = \<lparr>
     kb_subtasks = [\<lparr>task_description = ''Create Occlusion Shader'',
        task_code_snippet = Some ''// Create new Unlit shader in Unity''\<rparr>,
       \<lparr>task_description = ''Configure Depth Testing'',
        task_code_snippet = Some ''// Setup depth buffer comparison''\<rparr>,
       \<lparr>task_description = ''Implement Alpha Blending'',
        task_code_snippet = Some ''// Configure transparency for occlusion''\<rparr>,
       \<lparr>task_description = ''Optimize for Mobile AR'',
        task_code_snippet = Some ''// Reduce shader complexity for mobile''\<rparr>],
     kb_main_code = SHADER_KNOWLEDGE_occlusion_main_code,
     kb_best_practices = [''Use depth-only rendering for performance'',
       ''Implement proper depth buffer management'',
       ''Consider mobile GPU limitations'',
       ''Test with different AR tracking systems''],
     kb_gotchas = [''Render queue order is critical for occlusion'',
       ''Mobile GPUs may have depth precision issues'',
       ''Alpha blending can cause sorting problems'',
       ''Performance impact on older devices''],
     kb_docs = [''https://docs.unity3d.com/Manual/SL-ShaderReplacement.html'',
       ''https://developers.google.com/ar/develop/unity/occlusion'']\<rparr>\<close>

definition SHADER_KNOWLEDGE :: "(string \<times> kb_entry) list" where
  "SHADER_KNOWLEDGE = [(''occlusion'', SHADER_KNOWLEDGE_occlusion)]"

text \<open>
  The loop \<^verbatim>\<open>for k in knowledge_base: if k in query.lower(): key = k; break\<close>: the
  first key, in insertion order, that occurs in the lowercased query.
\<close>

fun first_key_in :: "(string \<times> 'v) list \<Rightarrow> string \<Rightarrow> string option" where
  "first_key_in [] query_lower = None"
| "first_key_in ((k, v) # kvs) query_lower =
     (if str_in k query_lower then Some k else first_key_in kvs query_lower)"

text \<open>\<^verbatim>\<open>key or default\<close>: \<^verbatim>\<open>None\<close> and the empty string are both falsy.\<close>

fun py_or :: "string option \<Rightarrow> string \<Rightarrow> string" where
  "py_or None d = d"
| "py_or (Some k) d = (if k = [] then d else k)"

text \<open>
  The \<^verbatim>\<open>if/elif/else\<close> chain that picks the knowledge base and the topic key;
  \<open>None\<close> is the \<^verbatim>\<open>else\<close> branch, which returns the General response at once.
\<close>

definition select_topic :: "string \<Rightarrow> string \<Rightarrow> ((string \<times> kb_entry) list \<times> string) option" where
  "select_topic query category =
     (if category = ''Unity'' then
        Some (UNITY_KNOWLEDGE, py_or (first_key_in UNITY_KNOWLEDGE (lower query)) ''teleport'')
      else if category = ''Unreal'' then Some (UNREAL_KNOWLEDGE, ''multiplayer'')
      else if category = ''Shader'' then Some (SHADER_KNOWLEDGE, ''occlusion'')
      else None)"

definition general_response :: "string \<Rightarrow> CodeXRResponse" where
  "general_response query = \<lparr>
     r_query = query,
     r_category = ''General'',
     r_subtasks = [
       \<lparr>st_description = ''Choose your development platform (Unity/Unreal)'',
        st_code_snippet = None,
        st_explanation = Some ''Select based on your team's expertise and project requirements''\<rparr>,
       \<lparr>st_description = ''Set up VR/AR SDK'',
        st_code_snippet = None,
        st_explanation = Some ''Install platform-specific SDKs and tools''\<rparr>,
       \<lparr>st_description = ''Configure development environment'',
        st_code_snippet = None,
        st_explanation = Some ''Set up IDE, version control, and testing devices''\<rparr>],
     r_code_snippet = ''// Choose your platform and follow platform-specific setup guides'',
     r_best_practices = [
       ''Start with simple interactions before complex features'',
       ''Test regularly on target devices'',
       ''Follow platform-specific design guidelines'',
       ''Optimize for performance from the beginning''],
     r_gotchas = [
       ''Each platform has different performance characteristics'',
       ''SDK updates can break existing functionality'',
       ''Device compatibility varies significantly''],
     r_difficulty_rating = 3,
     r_documentation_links = [
       ''https://docs.unity3d.com/Manual/XR.html'',
       ''https://docs.unrealengine.com/5.0/en-us/vr-development-in-unreal-engine/''],
     r_estimated_time = ''2-4 hours for basic setup''\<rparr>"

definition make_subtask :: "task \<Rightarrow> SubTask" where
  "make_subtask t = \<lparr>
     st_description = task_description t,
     st_code_snippet = task_code_snippet t,
     st_explanation = Some (''This step is essential for '' @ lower (task_description t))\<rparr>"

definition static_response :: "string \<Rightarrow> string \<Rightarrow> kb_entry \<Rightarrow> CodeXRResponse" where
  "static_response query category entry = \<lparr>
     r_query = query,
     r_category = category,
     r_subtasks = map make_subtask (kb_subtasks entry),
     r_code_snippet = kb_main_code entry,
     r_best_practices = kb_best_practices entry,
     r_gotchas = kb_gotchas entry,
     r_difficulty_rating = (if category = ''Shader'' then 4 else 3),
     r_documentation_links = kb_docs entry,
     r_estimated_time = (if category = ''Unreal'' then ''3-6 hours'' else ''1-3 hours'')\<rparr>"

definition fallback_response :: "string \<Rightarrow> string \<Rightarrow> CodeXRResponse" where
  "fallback_response query category = \<lparr>
     r_query = query,
     r_category = category,
     r_subtasks = [
       \<lparr>st_description = ''Research specific implementation'',
        st_code_snippet = None,
        st_explanation = Some ''Look up official documentation''\<rparr>],
     r_code_snippet = ''// Implementation depends on specific requirements'',
     r_best_practices = [''Follow official guidelines'', ''Test thoroughly''],
     r_gotchas = [''Implementation may vary by platform version''],
     r_difficulty_rating = 3,
     r_documentation_links = [''https://docs.example.com''],
     r_estimated_time = ''2-4 hours''\<rparr>"

text \<open>
  \<^verbatim>\<open>if knowledge_base and key in knowledge_base\<close>: a dictionary is truthy when it is
  not empty; \<^verbatim>\<open>knowledge_base[key]\<close> is then the entry stored under the key.
\<close>

definition generate_response :: "string \<Rightarrow> string \<Rightarrow> CodeXRResponse" where
  "generate_response query category =
     (case select_topic query category of
        None \<Rightarrow> general_response query
      | Some (knowledge_base, key) \<Rightarrow>
          (if knowledge_base \<noteq> [] \<and> key \<in> fst ` set knowledge_base then
             (case map_of knowledge_base key of
                Some entry \<Rightarrow> static_response query category entry
              | None \<Rightarrow> fallback_response query category)
           else fallback_response query category))"

subsection \<open>Response Validator (\<^verbatim>\<open>schemas.py\<close>)\<close>

text \<open>
  The pydantic models \<^verbatim>\<open>schemas.SubTask\<close> and \<^verbatim>\<open>schemas.CodeXRResponse\<close>, applied
  to a response of \<^verbatim>\<open>app.py\<close>. Each declared constraint and each \<^verbatim>\<open>@validator\<close>
  that fails contributes one violation, as pydantic 1.x reports them; a field's own
  validator runs only when the field's declared constraints hold. A response passes
  when the list is empty.
\<close>

datatype violation =
    CategoryNotInEnum
  | SubtasksMinItems
  | SubtasksMaxItems
  | DescriptionMinLength nat
  | DescriptionMaxLength nat
  | DescriptionNotActionable nat
  | CodeSnippetMinLength
  | BestPracticesMinItems
  | BestPracticesMaxItems
  | BestPracticeTooShort nat
  | GotchasMinItems
  | GotchasMaxItems
  | GotchaTooShort nat
  | DifficultyNotInEnum
  | DocumentationLinksMinItems
  | DocumentationLinksMaxItems
  | DocumentationLinkNotUrl nat
  | EstimatedTimeNoUnit

definition actionable_verbs :: "string list" where
  "actionable_verbs = [''create'', ''add'', ''configure'', ''setup'', ''implement'', ''install'']"

definition description_must_be_actionable :: "string \<Rightarrow> bool" where
  "description_must_be_actionable v = any_in actionable_verbs (lower v)"

definition validate_SubTask :: "nat \<Rightarrow> SubTask \<Rightarrow> violation list" where
  "validate_SubTask i t =
     (let v = st_description t in
      if length v < 10 then [DescriptionMinLength i]
      else if 200 < length v then [DescriptionMaxLength i]
      else if \<not> description_must_be_actionable v then [DescriptionNotActionable i]
      else [])"

definition CategoryEnum :: "string list" where
  "CategoryEnum = [''Unity'', ''Unreal'', ''Shader'', ''General'']"

definition each_item :: "(nat \<Rightarrow> 'a \<Rightarrow> violation list) \<Rightarrow> 'a list \<Rightarrow> violation list" where
  "each_item f xs = concat (map (\<lambda>(i, x). f i x) (enumerate 0 xs))"

text \<open>
  A list field with \<^verbatim>\<open>min_items\<close> and \<^verbatim>\<open>max_items\<close>: the size of the list is checked
  first, and the items are validated only when the size is admitted, so a field
  reports either its size violation or the violations of its items.
\<close>

definition list_field ::
    "nat \<Rightarrow> nat \<Rightarrow> violation \<Rightarrow> violation \<Rightarrow> (nat \<Rightarrow> 'a \<Rightarrow> violation list) \<Rightarrow> 'a list
     \<Rightarrow> violation list" where
  "list_field min_items max_items too_few too_many f xs =
     (if length xs < min_items then [too_few]
      else if max_items < length xs then [too_many]
      else each_item f xs)"

definition validate_best_practices :: "nat \<Rightarrow> string \<Rightarrow> violation list" where
  "validate_best_practices i v = (if length v < 10 then [BestPracticeTooShort i] else [])"

definition validate_gotchas :: "nat \<Rightarrow> string \<Rightarrow> violation list" where
  "validate_gotchas i v = (if length v < 15 then [GotchaTooShort i] else [])"

definition validate_documentation_links :: "nat \<Rightarrow> string \<Rightarrow> violation list" where
  "validate_documentation_links i v =
     (if prefix ''http://'' v \<or> prefix ''https://'' v then [] else [DocumentationLinkNotUrl i])"

definition time_patterns :: "string list" where
  "time_patterns = [''hour'', ''day'', ''week'', ''minute'']"

definition validate_estimated_time :: "string \<Rightarrow> violation list" where
  "validate_estimated_time v = (if any_in time_patterns (lower v) then [] else [EstimatedTimeNoUnit])"

definition validate_CodeXRResponse :: "CodeXRResponse \<Rightarrow> violation list" where
  "validate_CodeXRResponse r =
     (if r_category r \<in> set CategoryEnum then [] else [CategoryNotInEnum])
     @ list_field 3 8 SubtasksMinItems SubtasksMaxItems validate_SubTask (r_subtasks r)
     @ (if length (r_code_snippet r) < 50 then [CodeSnippetMinLength] else [])
     @ list_field 3 10 BestPracticesMinItems BestPracticesMaxItems validate_best_practices
         (r_best_practices r)
     @ list_field 2 8 GotchasMinItems GotchasMaxItems validate_gotchas (r_gotchas r)
     @ (if 1 \<le> r_difficulty_rating r \<and> r_difficulty_rating r \<le> 5 then [] else [DifficultyNotInEnum])
     @ list_field 2 6 DocumentationLinksMinItems DocumentationLinksMaxItems
         validate_documentation_links (r_documentation_links r)
     @ validate_estimated_time (r_estimated_time r)"

subsection \<open>Error Signature Matcher (\<^verbatim>\<open>ErrorDebugger\<close>)\<close>

datatype py_error = KeyError string | OverflowError | DataError | OperationalError

record pattern =
  p_analysis :: string
  p_fix :: string
  p_code_fix :: string
  p_prevention :: "string list"

record diagnosis =
  error_type :: string
  error_analysis :: string
  likely_fix :: string
  code_fix :: string
  prevention_tips :: "string list"

text \<open>The two-level table built by \<^verbatim>\<open>ErrorDebugger.__init__\<close>.\<close>

definition error_patterns :: "(string \<times> (string \<times> pattern) list) list" where
  "error_patterns = [
     (''NullReferenceException'', [
        (''teleportationprovider'', \<lparr>
           p_analysis = ''TeleportationProvider component is not assigned'',
           p_fix = ''Assign TeleportationProvider in the Inspector or via script'',
           p_code_fix = ''teleportProvider = FindObjectOfType<TeleportationProvider>();'',
           p_prevention = [''Always check for null references'', ''Use [RequireComponent] attribute'']\<rparr>)]),
     (''MissingComponentException'', [
        (''general'', \<lparr>
           p_analysis = ''Required component is missing from GameObject'',
           p_fix = ''Add the missing component via Inspector or AddComponent<T>()'',
           p_code_fix = ''gameObject.AddComponent<RequiredComponent>();'',
           p_prevention = [''Use [RequireComponent] attribute'', ''Validate components in OnValidate()'']\<rparr>)])]"

text \<open>\<^verbatim>\<open>d[k]\<close> on a dictionary raises \<^verbatim>\<open>KeyError\<close> when the key is missing.\<close>

definition getitem :: "(string \<times> 'v) list \<Rightarrow> string \<Rightarrow> py_error + 'v" where
  "getitem d k = (case map_of d k of None \<Rightarrow> Inl (KeyError k) | Some v \<Rightarrow> Inr v)"

definition generic_diagnosis :: diagnosis where
  "generic_diagnosis = \<lparr>
     error_type = ''Unknown'',
     error_analysis = ''Check Unity Console for detailed error information'',
     likely_fix = ''Review stack trace and add proper null checks'',
     code_fix = ''// Add appropriate error handling here'',
     prevention_tips = [''Enable detailed logging'', ''Use try-catch blocks'']\<rparr>"

definition debug_error :: "string \<Rightarrow> string option \<Rightarrow> py_error + diagnosis" where
  "debug_error error_log context =
     (let error_log_lower = lower error_log in
      if str_in ''nullreferenceexception'' error_log_lower then
        (if str_in ''teleportationprovider'' error_log_lower then
           (case getitem error_patterns ''NullReferenceException'' of
              Inl e \<Rightarrow> Inl e
            | Inr sub \<Rightarrow>
                (case getitem sub ''teleportationprovider'' of
                   Inl e \<Rightarrow> Inl e
                 | Inr p \<Rightarrow> Inr \<lparr>
                     error_type = ''NullReferenceException'',
                     error_analysis = p_analysis p,
                     likely_fix = p_fix p,
                     code_fix = p_code_fix p,
                     prevention_tips = p_prevention p\<rparr>))
         else Inr generic_diagnosis)
      else Inr generic_diagnosis)"

subsection \<open>Offline Document Index (\<^verbatim>\<open>RAGLiteRetriever\<close>)\<close>

text \<open>
  The SQLite database is the state: the rows of the table \<^verbatim>\<open>documents\<close> and the rows
  of the table \<^verbatim>\<open>retrieval_cache\<close>. Both tables are created empty by
  \<^verbatim>\<open>_initialize_database\<close> when they do not exist yet. The SQL statements are read
  with the semantics of SQLite and of Python's \<^verbatim>\<open>sqlite3\<close> module, with SQLite's default
  limits: a text of at most 1000000000 bytes and a \<^verbatim>\<open>LIKE\<close> pattern of at most 50000
  bytes.
\<close>

record doc_row =
  doc_id :: int
  doc_title :: string
  doc_content :: string
  doc_source :: string
  doc_category :: string
  doc_url :: "string option"
  doc_created_at :: string

record cache_row =
  cache_query_hash :: string
  cache_results :: string
  cache_created_at :: string

record rag_db =
  documents :: "doc_row list"
  retrieval_cache :: "cache_row list"

definition initialize_database :: rag_db where
  "initialize_database = \<lparr>documents = [], retrieval_cache = []\<rparr>"

text \<open>
  The parameters of a statement are bound in order before the statement runs. A text
  is passed in UTF-8, one byte for a code point below 128 and two bytes for the others
  below 256; a text of more than 1000000000 bytes is refused (\<^verbatim>\<open>sqlite3.DataError\<close>),
  and so is an integer outside the signed 64-bit range (\<^verbatim>\<open>OverflowError\<close>). The
  first parameter that is refused raises its exception.
\<close>

definition utf8_length :: "string \<Rightarrow> int" where
  "utf8_length s = sum_list (map (\<lambda>c. if (of_char c :: nat) < 128 then 1 else 2) s)"

definition bind_text :: "string \<Rightarrow> py_error option" where
  "bind_text s = (if 1000000000 < utf8_length s then Some DataError else None)"

definition bind_int :: "int \<Rightarrow> py_error option" where
  "bind_int n = (if n < - (2 ^ 63) \<or> 2 ^ 63 \<le> n then Some OverflowError else None)"

fun first_error :: "py_error option list \<Rightarrow> py_error option" where
  "first_error [] = None"
| "first_error (None # es) = first_error es"
| "first_error (Some e # es) = Some e"

text \<open>
  \<^verbatim>\<open>INTEGER PRIMARY KEY AUTOINCREMENT\<close>: a new row gets an identifier one above
  the largest one in use (no statement of the program deletes a row).
\<close>

definition next_id :: "doc_row list \<Rightarrow> int" where
  "next_id rows = fold max (map doc_id rows) 0 + 1"

text \<open>
  A row is stored as one record: a header, which holds its own size in one byte and
  one variable-length integer per column, followed by the texts of the columns. The
  identifier takes one byte of the header and no other space; the integer of a text of
  \<open>n\<close> bytes is \<open>2 * n + 13\<close>. A record of more than 1000000000 bytes is refused
  (\<^verbatim>\<open>sqlite3.DataError\<close>), as is a parameter of that size.
\<close>

definition varint_length :: "int \<Rightarrow> int" where
  "varint_length v =
     (if v < 2 ^ 7 then 1 else if v < 2 ^ 14 then 2 else if v < 2 ^ 21 then 3
      else if v < 2 ^ 28 then 4 else if v < 2 ^ 35 then 5 else if v < 2 ^ 42 then 6
      else if v < 2 ^ 49 then 7 else if v < 2 ^ 56 then 8 else 9)"

definition record_size :: "string list \<Rightarrow> int" where
  "record_size texts =
     1 + 1 + sum_list (map (\<lambda>s. varint_length (2 * utf8_length s + 13)) texts)
     + sum_list (map utf8_length texts)"

text \<open>
  One \<^verbatim>\<open>INSERT\<close> of \<^verbatim>\<open>index_documentation\<close>. A document is a dictionary;
  \<^verbatim>\<open>doc['title']\<close> raises \<^verbatim>\<open>KeyError\<close> on a missing key, \<^verbatim>\<open>doc.get('url', '')\<close>
  does not. \<open>now\<close> is the value of \<^verbatim>\<open>CURRENT_TIMESTAMP\<close>, the text of the last
  column.
\<close>

definition insert_document :: "string \<Rightarrow> rag_db \<Rightarrow> (string \<times> string) list \<Rightarrow> py_error + rag_db" where
  "insert_document now db doc =
     (case getitem doc ''title'' of Inl e \<Rightarrow> Inl e | Inr title \<Rightarrow>
      case getitem doc ''content'' of Inl e \<Rightarrow> Inl e | Inr content \<Rightarrow>
      case getitem doc ''source'' of Inl e \<Rightarrow> Inl e | Inr source \<Rightarrow>
      case getitem doc ''category'' of Inl e \<Rightarrow> Inl e | Inr category \<Rightarrow>
        (let url = (case map_of doc ''url'' of None \<Rightarrow> [] | Some u \<Rightarrow> u) in
         if 1000000000 < record_size [title, content, source, category, url, now]
         then Inl DataError
         else Inr (db\<lparr>documents := documents db @ [\<lparr>
           doc_id = next_id (documents db),
           doc_title = title,
           doc_content = content,
           doc_source = source,
           doc_category = category,
           doc_url = Some url,
           doc_created_at = now\<rparr>]\<rparr>)))"

text \<open>
  The loop of \<^verbatim>\<open>index_documentation\<close>. The commit comes after the loop, so an
  exception leaves the stored database as it was: the result is the error alone.
\<close>

fun index_documentation :: "string \<Rightarrow> rag_db \<Rightarrow> (string \<times> string) list list \<Rightarrow> py_error + rag_db" where
  "index_documentation now db [] = Inr db"
| "index_documentation now db (doc # docs) =
     (case insert_document now db doc of
        Inl e \<Rightarrow> Inl e
      | Inr db' \<Rightarrow> index_documentation now db' docs)"

text \<open>
  SQLite's \<^verbatim>\<open>LIKE\<close> without \<^verbatim>\<open>ESCAPE\<close>: in the pattern \<^verbatim>\<open>%\<close> matches any run of
  characters, also the empty one, \<^verbatim>\<open>_\<close> matches exactly one character, and every other
  character matches itself, where the letters A to Z and a to z match without regard
  to case (\<open>like\<close>). The function reads the pattern and the text as C strings:
  each ends before its first character of code 0 (\<open>sql_like\<close>).
\<close>

definition is_ascii_upper :: "char \<Rightarrow> bool" where
  "is_ascii_upper c = (let n = (of_char c :: nat) in 65 \<le> n \<and> n \<le> 90)"

fun sql_fold :: "char \<Rightarrow> char" where
  "sql_fold (Char b0 b1 b2 b3 b4 b5 b6 b7) =
     (if is_ascii_upper (Char b0 b1 b2 b3 b4 b5 b6 b7) then Char b0 b1 b2 b3 b4 True b6 b7
      else Char b0 b1 b2 b3 b4 b5 b6 b7)"

fun like :: "string \<Rightarrow> string \<Rightarrow> bool" where
  "like [] s = (s = [])"
| "like (p # ps) [] = (p = CHR ''%'' \<and> like ps [])"
| "like (p # ps) (c # cs) =
     (if p = CHR ''%'' then like ps (c # cs) \<or> like (p # ps) cs
      else (p = CHR ''_'' \<or> sql_fold p = sql_fold c) \<and> like ps cs)"

definition c_string :: "string \<Rightarrow> string" where
  "c_string s = takeWhile (\<lambda>c. c \<noteq> CHR 0x00) s"

definition sql_like :: "string \<Rightarrow> string \<Rightarrow> bool" where
  "sql_like pat s = like (c_string pat) (c_string s)"

text \<open>\<^verbatim>\<open>LIMIT n\<close>: a negative \<open>n\<close> puts no bound on the number of rows.\<close>

definition sql_limit :: "int \<Rightarrow> 'a list \<Rightarrow> 'a list" where
  "sql_limit n rows = (if n < 0 then rows else take (nat n) rows)"

text \<open>\<^verbatim>\<open>ORDER BY id DESC\<close>; the identifiers are a primary key, hence distinct.\<close>

definition order_by_id_desc :: "doc_row list \<Rightarrow> doc_row list" where
  "order_by_id_desc rows = rev (sort_key doc_id rows)"

text \<open>
  The \<^verbatim>\<open>WHERE\<close> clause. The pattern is \<^verbatim>\<open>f"%{query}%"\<close>. \<^verbatim>\<open>if category:\<close> takes
  the filtered statement only for a category that is neither \<^verbatim>\<open>None\<close> nor empty;
  there the test \<^verbatim>\<open>category = ?\<close> comes first, and the \<^verbatim>\<open>LIKE\<close> tests are evaluated
  only for a row that passes it.
\<close>

definition category_clause :: "string option \<Rightarrow> doc_row \<Rightarrow> bool" where
  "category_clause category row =
     (case category of
        None \<Rightarrow> True
      | Some c \<Rightarrow> if c \<noteq> [] then doc_category row = c else True)"

definition text_clause :: "string \<Rightarrow> doc_row \<Rightarrow> bool" where
  "text_clause query row =
     (let pat = ''%'' @ query @ ''%''
      in sql_like pat (doc_content row) \<or> sql_like pat (doc_title row))"

definition where_clause :: "string \<Rightarrow> string option \<Rightarrow> doc_row \<Rightarrow> bool" where
  "where_clause query category row = (category_clause category row \<and> text_clause query row)"

record retrieved =
  res_id :: int
  res_title :: string
  res_content :: string
  res_source :: string
  res_category :: string
  res_url :: string
  res_similarity :: real

definition row_result :: "doc_row \<Rightarrow> retrieved" where
  "row_result row = \<lparr>
     res_id = doc_id row,
     res_title = doc_title row,
     res_content = doc_content row,
     res_source = doc_source row,
     res_category = doc_category row,
     res_url = py_or (doc_url row) [],
     res_similarity = 0.8\<rparr>"

text \<open>
  \<^verbatim>\<open>retrieve_relevant_docs\<close> returns the results or raises; the database after the
  call is returned beside the outcome, to make the statements it runs on the database
  explicit: one \<^verbatim>\<open>SELECT\<close> on \<^verbatim>\<open>documents\<close> and nothing else. The parameters are
  the category (in the filtered statement), the pattern twice, and \<^verbatim>\<open>top_k\<close>. When
  they are bound the statement runs: \<^verbatim>\<open>LIKE\<close> refuses a pattern of more than 50000
  bytes (\<^verbatim>\<open>sqlite3.OperationalError\<close>) at the first row for which it is evaluated, and
  there is such a row unless the limit is 0 or no row passes the category test.
  \<open>select_documents\<close> is what the \<^verbatim>\<open>SELECT\<close> returns when it raises nothing.
\<close>

definition select_documents :: "rag_db \<Rightarrow> string \<Rightarrow> string option \<Rightarrow> int \<Rightarrow> doc_row list" where
  "select_documents db query category top_k =
     sql_limit top_k (order_by_id_desc (filter (where_clause query category) (documents db)))"

definition retrieve_relevant_docs ::
    "rag_db \<Rightarrow> string \<Rightarrow> string option \<Rightarrow> int \<Rightarrow> (py_error + retrieved list) \<times> rag_db" where
  "retrieve_relevant_docs db query category top_k =
     (let pat = ''%'' @ query @ ''%'';
          parameters =
            (case category of
               None \<Rightarrow> []
             | Some c \<Rightarrow> if c \<noteq> [] then [bind_text c] else [])
            @ [bind_text pat, bind_text pat, bind_int top_k]
      in case first_error parameters of
           Some e \<Rightarrow> (Inl e, db)
         | None \<Rightarrow>
             if top_k \<noteq> 0 \<and> filter (category_clause category) (documents db) \<noteq> []
                \<and> 50000 < utf8_length pat
             then (Inl OperationalError, db)
             else (Inr (map row_result (select_documents db query category top_k)), db))"

text \<open>
  The sample documents of \<^verbatim>\<open>setup_phase2_rag\<close>; \<open>db\<close> is the database found at
  the path, \<^const>\<open>initialize_database\<close> when there was none.
\<close>

definition sample_docs :: "(string \<times> string) list list" where
  "sample_docs = [
     [(''title'', ''Unity VR Teleportation Setup''),
      (''content'', ''To set up teleportation in Unity VR, install XR Interaction Toolkit, create XR Origin, add TeleportationProvider component, and configure teleport areas with NavMesh.''),
      (''source'', ''Unity Documentation''),
      (''category'', ''Unity''),
      (''url'', ''https://docs.unity3d.com/Packages/com.unity.xr.interaction.toolkit@2.5/manual/teleportation.html'')],
     [(''title'', ''Unreal VR Multiplayer Setup''),
      (''content'', ''Setting up VR multiplayer in Unreal Engine requires enabling VR template, configuring network settings, creating custom game mode, and implementing proper pawn replication.''),
      (''source'', ''Unreal Documentation''),
      (''category'', ''Unreal''),
      (''url'', ''https://docs.unrealengine.com/5.0/en-us/multiplayer-programming-quick-start-for-unreal-engine/'')],
     [(''title'', ''AR Occlusion Shaders''),
      (''content'', ''AR occlusion shaders write to depth buffer without visible output. Use ZWrite On, ZTest LEqual, ColorMask 0, and Queue Geometry-1 for proper rendering order.''),
      (''source'', ''Shader Documentation''),
      (''category'', ''Shader''),
      (''url'', ''https://docs.unity3d.com/Manual/SL-ShaderReplacement.html'')]]"

definition setup_phase2_rag :: "string \<Rightarrow> rag_db \<Rightarrow> py_error + rag_db" where
  "setup_phase2_rag now db = index_documentation now db sample_docs"

text \<open>
  The database that \<^verbatim>\<open>setup_phase2_rag\<close> builds from an empty one at the time
  \<^verbatim>\<open>2025-01-01 00:00:00\<close>; it is the state of the examples below.
\<close>

definition sample_db :: rag_db where
  "sample_db = \<lparr>
     documents = [
       \<lparr>doc_id = 1,
        doc_title = ''Unity VR Teleportation Setup'',
        doc_content = ''To set up teleportation in Unity VR, install XR Interaction Toolkit, create XR Origin, add TeleportationProvider component, and configure teleport areas with NavMesh.'',
        doc_source = ''Unity Documentation'',
        doc_category = ''Unity'',
        doc_url = Some ''https://docs.unity3d.com/Packages/com.unity.xr.interaction.toolkit@2.5/manual/teleportation.html'',
        doc_created_at = ''2025-01-01 00:00:00''\<rparr>,
       \<lparr>doc_id = 2,
        doc_title = ''Unreal VR Multiplayer Setup'',
        doc_content = ''Setting up VR multiplayer in Unreal Engine requires enabling VR template, configuring network settings, creating custom game mode, and implementing proper pawn replication.'',
        doc_source = ''Unreal Documentation'',
        doc_category = ''Unreal'',
        doc_url = Some ''https://docs.unrealengine.com/5.0/en-us/multiplayer-programming-quick-start-for-unreal-engine/'',
        doc_created_at = ''2025-01-01 00:00:00''\<rparr>,
       \<lparr>doc_id = 3,
        doc_title = ''AR Occlusion Shaders'',
        doc_content = ''AR occlusion shaders write to depth buffer without visible output. Use ZWrite On, ZTest LEqual, ColorMask 0, and Queue Geometry-1 for proper rendering order.'',
        doc_source = ''Shader Documentation'',
        doc_category = ''Shader'',
        doc_url = Some ''https://docs.unity3d.com/Manual/SL-ShaderReplacement.html'',
        doc_created_at = ''2025-01-01 00:00:00''\<rparr>],
     retrieval_cache = []\<rparr>"

text \<open>
  The matching rule in the words of the specification, for comparison with the
  \<^verbatim>\<open>LIKE\<close> of the source: the query occurs in the text as a contiguous block, either
  exactly (\<open>contains_query\<close>) or up to the case of the letters A to Z
  (\<open>contains_query_ci\<close>); a result matches when its title or its content does.
\<close>

definition contains_ci :: "string \<Rightarrow> string \<Rightarrow> bool" where
  "contains_ci q s = sublist (map sql_fold q) (map sql_fold s)"

definition contains_query :: "string \<Rightarrow> retrieved \<Rightarrow> bool" where
  "contains_query q r = (sublist q (res_title r) \<or> sublist q (res_content r))"

definition contains_query_ci :: "string \<Rightarrow> retrieved \<Rightarrow> bool" where
  "contains_query_ci q r = (contains_ci q (res_title r) \<or> contains_ci q (res_content r))"

subsection \<open>Web Search Aggregator (\<^verbatim>\<open>CodeXRSearchAgent\<close>)\<close>

text \<open>
  A search provider is external: \<^verbatim>\<open>tool.func(search_query)\<close> either raises
  (\<open>Inl\<close> with the message) or returns a value, which is a string, a list of
  dictionaries with the optional string fields \<^verbatim>\<open>title\<close>, \<^verbatim>\<open>snippet\<close>, \<^verbatim>\<open>content\<close>,
  \<^verbatim>\<open>url\<close> and \<^verbatim>\<open>link\<close>, or a value of another type.
\<close>

record hit =
  hit_title :: "string option"
  hit_snippet :: "string option"
  hit_content :: "string option"
  hit_url :: "string option"
  hit_link :: "string option"

datatype provider_value = RawText string | Structured "hit list" | OtherValue

record tool =
  tool_name :: string
  tool_func :: "string \<Rightarrow> string + provider_value"

record search_result =
  sr_title :: string
  sr_content :: string
  sr_url :: string
  sr_source :: string
  sr_timestamp :: string

record scored_result = search_result +
  relevance_score :: nat

text \<open>\<^verbatim>\<open>d.get(k, default)\<close>.\<close>

fun get_or :: "'a option \<Rightarrow> 'a \<Rightarrow> 'a" where
  "get_or None d = d"
| "get_or (Some v) d = v"

definition build_search_queries :: "string \<Rightarrow> string \<Rightarrow> string list" where
  "build_search_queries query category =
     (let base_terms = [
            (''Unity'', [''Unity3D'', ''XR Interaction Toolkit'', ''Unity VR'', ''Unity AR'']),
            (''Unreal'', [''Unreal Engine'', ''UE4'', ''UE5'', ''Unreal VR'', ''Unreal AR'']),
            (''Shader'', [''Unity Shader'', ''HLSL'', ''Shader Graph'', ''URP Shader'']),
            (''General'', [''AR development'', ''VR development'', ''Mixed Reality''])];
          doc_sites = [
            ''site:docs.unity3d.com'',
            ''site:docs.unrealengine.com'',
            ''site:learn.unity.com'',
            ''site:developer.oculus.com'',
            ''site:developers.google.com/ar'']
      in (case map_of base_terms category of
            None \<Rightarrow> []
          | Some terms \<Rightarrow>
              map (\<lambda>term. query @ '' '' @ term @ '' tutorial documentation'') (take 2 terms))
         @ map (\<lambda>site. query @ '' '' @ site) (take 3 doc_sites)
         @ [''AR VR development '' @ query @ '' official documentation''])"

text \<open>
  \<^verbatim>\<open>_parse_search_results\<close>; \<open>now\<close> is \<^verbatim>\<open>datetime.now().isoformat()\<close>. With
  string fields no step of the function raises, so its \<^verbatim>\<open>try\<close> never catches.
\<close>

definition parse_search_results :: "string \<Rightarrow> provider_value \<Rightarrow> string \<Rightarrow> search_result list" where
  "parse_search_results now results query =
     (case results of
        RawText text \<Rightarrow> [\<lparr>
          sr_title = ''Search Results for: '' @ query,
          sr_content = take 500 text,
          sr_url = ''N/A'',
          sr_source = ''Web Search'',
          sr_timestamp = now\<rparr>]
      | Structured hits \<Rightarrow>
          map (\<lambda>h. \<lparr>
            sr_title = get_or (hit_title h) ''No Title'',
            sr_content = take 500 (get_or (hit_snippet h) (get_or (hit_content h) [])),
            sr_url = get_or (hit_url h) (get_or (hit_link h) ''N/A''),
            sr_source = ''Web Search'',
            sr_timestamp = now\<rparr>) (take 3 hits)
      | OtherValue \<Rightarrow> [])"

text \<open>
  The inner loop over the tools for one enhanced query, inside the \<^verbatim>\<open>try\<close>. It
  returns what the loop appended to \<^verbatim>\<open>all_results\<close> and the tools it invoked, in
  order. A parsed result that is not empty ends the loop (\<^verbatim>\<open>break\<close>); an exception
  of a tool leaves the loop too, since the \<^verbatim>\<open>try\<close> encloses the whole loop, and the
  handler goes on with the next enhanced query.
\<close>

fun run_tools :: "string \<Rightarrow> tool list \<Rightarrow> string \<Rightarrow> search_result list \<times> string list" where
  "run_tools now [] search_query = ([], [])"
| "run_tools now (t # ts) search_query =
     (case tool_func t search_query of
        Inl e \<Rightarrow> ([], [tool_name t])
      | Inr results \<Rightarrow>
          (let parsed_results = parse_search_results now results search_query in
           if parsed_results \<noteq> [] then (parsed_results, [tool_name t])
           else (case run_tools now ts search_query of
                   (rest, invoked) \<Rightarrow> (parsed_results @ rest, tool_name t # invoked))))"

definition priority_domains :: "(string \<times> string list) list" where
  "priority_domains = [
     (''Unity'', [''docs.unity3d.com'', ''learn.unity.com'']),
     (''Unreal'', [''docs.unrealengine.com'', ''unrealengine.com'']),
     (''Shader'', [''docs.unity3d.com'', ''catlikecoding.com'']),
     (''General'', [''developer.oculus.com'', ''developers.google.com''])]"

definition ar_vr_terms :: "string list" where
  "ar_vr_terms = [''ar'', ''vr'', ''virtual reality'', ''augmented reality'', ''mixed reality'']"

definition score_result :: "string \<Rightarrow> string \<Rightarrow> search_result \<Rightarrow> nat" where
  "score_result query category result =
     (let url = lower (sr_url result);
          content = lower (sr_content result);
          query_words = split (lower query)
      in (case map_of priority_domains category of
            None \<Rightarrow> 0
          | Some domains \<Rightarrow> 10 * length (filter (\<lambda>domain. str_in domain url) domains))
         + length (filter (\<lambda>word. str_in word content) query_words)
         + 2 * length (filter (\<lambda>term. str_in term content) ar_vr_terms))"

definition with_score :: "string \<Rightarrow> string \<Rightarrow> search_result \<Rightarrow> scored_result" where
  "with_score query category result = \<lparr>
     sr_title = sr_title result,
     sr_content = sr_content result,
     sr_url = sr_url result,
     sr_source = sr_source result,
     sr_timestamp = sr_timestamp result,
     relevance_score = score_result query category result\<rparr>"

text \<open>
  \<^verbatim>\<open>list.sort(key=..., reverse=True)\<close> is stable: results with equal scores keep
  their order. \<^const>\<open>sort_key\<close> is a stable insertion sort, here on the negated score.
\<close>

definition rank_and_filter_results :: "search_result list \<Rightarrow> string \<Rightarrow> string \<Rightarrow> scored_result list" where
  "rank_and_filter_results results query category =
     take 5 (sort_key (\<lambda>r. - int (relevance_score r)) (map (with_score query category) results))"

text \<open>
  \<^verbatim>\<open>search_ar_vr_docs\<close> with the list \<^verbatim>\<open>self.search_tools\<close> as a parameter. Beside the
  ranked results it returns, for each of the enhanced queries tried, the names of the
  tools invoked for it.
\<close>

definition search_ar_vr_docs ::
    "string \<Rightarrow> tool list \<Rightarrow> string \<Rightarrow> string \<Rightarrow> scored_result list \<times> (string \<times> string list) list" where
  "search_ar_vr_docs now search_tools query category =
     (let enhanced_queries = build_search_queries query category;
          runs = map (\<lambda>search_query. (search_query, run_tools now search_tools search_query))
                   (take 2 enhanced_queries);
          all_results = concat (map (\<lambda>(search_query, parsed, invoked). parsed) runs)
      in (rank_and_filter_results all_results query category,
          map (\<lambda>(search_query, parsed, invoked). (search_query, invoked)) runs))"

text \<open>
  An invocation of a tool fails, in the words of the specification, when it raises or
  yields no parsed result.
\<close>

definition invocation_fails :: "string \<Rightarrow> tool \<Rightarrow> string \<Rightarrow> bool" where
  "invocation_fails now t search_query =
     (case tool_func t search_query of
        Inl e \<Rightarrow> True
      | Inr v \<Rightarrow> parse_search_results now v search_query = [])"

text \<open>
  Example tools: a primary provider that raises on every query, and three behaviours
  of the free fallback provider (a text answer, an empty list, four structured hits).
\<close>

definition serp_raising :: tool where
  "serp_raising = \<lparr>tool_name = ''SERP_Search'', tool_func = (\<lambda>q. Inl ''Invalid API key'')\<rparr>"

definition ddg_text :: tool where
  "ddg_text = \<lparr>tool_name = ''DuckDuckGo_Search'',
                tool_func = (\<lambda>q. Inr (RawText ''Unity VR teleport docs''))\<rparr>"

definition ddg_empty :: tool where
  "ddg_empty = \<lparr>tool_name = ''DuckDuckGo_Search'', tool_func = (\<lambda>q. Inr (Structured []))\<rparr>"

definition ddg_hits :: tool where
  "ddg_hits = \<lparr>tool_name = ''DuckDuckGo_Search'',
     tool_func = (\<lambda>q. Inr (Structured (replicate 4
       \<lparr>hit_title = Some ''Teleportation'', hit_snippet = Some ''Teleport in VR'',
        hit_content = None, hit_url = None, hit_link = Some ''https://docs.unity3d.com/''\<rparr>)))\<rparr>"

section \<open>Part II: the properties\<close>

subsection \<open>Strings\<close>

lemma str_in_sublist: "str_in needle hay = sublist needle hay"
  by (induction hay) (auto simp: sublist_Cons_right)

subsection \<open>Category Classifier\<close>

lemma max_key_from3:
  "max_key_from (a, u) [(b, r), (c, s)] =
     (if r \<le> u \<and> s \<le> u then (a, u) else if u < r \<and> s \<le> r then (b, r) else (c, s))"
  by auto

lemma categorize_with_eq:
  "categorize_with uk rk sk q =
     (let u = keyword_hits uk (lower q); r = keyword_hits rk (lower q); s = keyword_hits sk (lower q)
      in if u = 0 \<and> r = 0 \<and> s = 0 then ''General''
         else if r \<le> u \<and> s \<le> u then ''Unity''
         else if s \<le> r then ''Unreal'' else ''Shader'')"
  unfolding categorize_with_def Let_def max_key_from3
  by (auto split: if_splits)

text \<open>
  \<^bold>\<open>C5.\<close> With \<open>u\<close>, \<open>r\<close> and \<open>s\<close> the keyword-hit counts of Unity, Unreal and Shader in
  the lowercased query: when \<open>u = r\<close> is the positive maximum, \<^verbatim>\<open>categorize_query\<close>
  returns Unity; in general the result is General when all three counts are zero, and
  otherwise the first category in the order Unity, Unreal, Shader whose count is
  maximal. The same holds for the function of \<^verbatim>\<open>streamlit_app.py\<close> with its longer
  keyword lists.
\<close>

theorem categorize_query_tie_break:
  "(let u = keyword_hits unity_keywords (lower q);
        r = keyword_hits unreal_keywords (lower q);
        s = keyword_hits shader_keywords (lower q)
    in (u = r \<and> s \<le> u \<and> 0 < u \<longrightarrow> categorize_query q = ''Unity'')
       \<and> categorize_query q =
           (if u = 0 \<and> r = 0 \<and> s = 0 then ''General''
            else if r \<le> u \<and> s \<le> u then ''Unity''
            else if s \<le> r then ''Unreal'' else ''Shader''))
   \<and> (let u = keyword_hits st_unity_keywords (lower q);
        r = keyword_hits st_unreal_keywords (lower q);
        s = keyword_hits st_shader_keywords (lower q)
    in (u = r \<and> s \<le> u \<and> 0 < u \<longrightarrow> st_categorize_query q = ''Unity'')
       \<and> st_categorize_query q =
           (if u = 0 \<and> r = 0 \<and> s = 0 then ''General''
            else if r \<le> u \<and> s \<le> u then ''Unity''
            else if s \<le> r then ''Unreal'' else ''Shader''))"
  unfolding categorize_query_def st_categorize_query_def categorize_with_eq Let_def
  by simp

lemma hits_unity_unreal:
  "keyword_hits unity_keywords (lower ''unity unreal'') = 1"
  "keyword_hits unreal_keywords (lower ''unity unreal'') = 1"
  "keyword_hits shader_keywords (lower ''unity unreal'') = 0"
  "keyword_hits st_unity_keywords (lower ''unity unreal'') = 1"
  "keyword_hits st_unreal_keywords (lower ''unity unreal'') = 1"
  "keyword_hits st_shader_keywords (lower ''unity unreal'') = 0"
  by code_simp+

text \<open>The query \<^verbatim>\<open>unity unreal\<close>: one hit each for Unity and Unreal, none for Shader.\<close>

theorem categorize_query_tie_break_witness:
  "keyword_hits unity_keywords (lower ''unity unreal'')
     = keyword_hits unreal_keywords (lower ''unity unreal'')
   \<and> keyword_hits shader_keywords (lower ''unity unreal'')
     \<le> keyword_hits unity_keywords (lower ''unity unreal'')
   \<and> 0 < keyword_hits unity_keywords (lower ''unity unreal'')
   \<and> categorize_query ''unity unreal'' = ''Unity''
   \<and> st_categorize_query ''unity unreal'' = ''Unity''"
  using categorize_query_tie_break [of "''unity unreal''"]
  by (simp add: hits_unity_unreal Let_def)

subsection \<open>Static Knowledge Selector\<close>

lemma first_key_in_find:
  "first_key_in kb ql = find (\<lambda>k. str_in k ql) (map fst kb)"
  by (induction kb) auto

lemma generate_response_uses_selected:
  assumes "category \<in> {''Unity'', ''Unreal'', ''Shader''}"
  shows "\<exists>kb key entry. select_topic q category = Some (kb, key) \<and> map_of kb key = Some entry
           \<and> generate_response q category = static_response q category entry"
  using assms
  by (auto simp: generate_response_def select_topic_def UNITY_KNOWLEDGE_def UNREAL_KNOWLEDGE_def
      SHADER_KNOWLEDGE_def)

text \<open>
  \<^bold>\<open>C6.\<close> For the category Unity the topic key is the first key of the Unity knowledge
  mapping that occurs in the lowercased query, and \<^verbatim>\<open>teleport\<close> when none does; for
  Unreal and Shader the key is \<^verbatim>\<open>multiplayer\<close> and \<^verbatim>\<open>occlusion\<close> whatever the query.
  In the three categories the response is built from the entry stored under that key.
\<close>

theorem select_topic_rule:
  "select_topic q ''Unity'' =
     Some (UNITY_KNOWLEDGE,
           case find (\<lambda>k. sublist k (lower q)) (map fst UNITY_KNOWLEDGE) of
             Some k \<Rightarrow> k | None \<Rightarrow> ''teleport'')
   \<and> select_topic q ''Unreal'' = Some (UNREAL_KNOWLEDGE, ''multiplayer'')
   \<and> select_topic q ''Shader'' = Some (SHADER_KNOWLEDGE, ''occlusion'')
   \<and> (\<forall>category \<in> {''Unity'', ''Unreal'', ''Shader''}.
         \<exists>kb key entry. select_topic q category = Some (kb, key) \<and> map_of kb key = Some entry
           \<and> generate_response q category = static_response q category entry)"
proof -
  have "select_topic q ''Unity'' =
     Some (UNITY_KNOWLEDGE,
           case find (\<lambda>k. sublist k (lower q)) (map fst UNITY_KNOWLEDGE) of
             Some k \<Rightarrow> k | None \<Rightarrow> ''teleport'')"
    by (simp add: select_topic_def first_key_in_find str_in_sublist UNITY_KNOWLEDGE_def)
  moreover have "select_topic q ''Unreal'' = Some (UNREAL_KNOWLEDGE, ''multiplayer'')"
    by (simp add: select_topic_def)
  moreover have "select_topic q ''Shader'' = Some (SHADER_KNOWLEDGE, ''occlusion'')"
    by (simp add: select_topic_def)
  ultimately show ?thesis
    using generate_response_uses_selected [of _ q] by blast
qed

text \<open>
  A query that names the topic, and one that names no topic: both select \<^verbatim>\<open>teleport\<close>
  for Unity.
\<close>

theorem select_topic_rule_witness:
  "select_topic ''How do I add teleport locomotion in Unity VR?'' ''Unity''
     = Some (UNITY_KNOWLEDGE, ''teleport'')
   \<and> select_topic ''grab interaction'' ''Unity'' = Some (UNITY_KNOWLEDGE, ''teleport'')
   \<and> select_topic ''grab interaction'' ''Unreal'' = Some (UNREAL_KNOWLEDGE, ''multiplayer'')
   \<and> select_topic ''grab interaction'' ''Shader'' = Some (SHADER_KNOWLEDGE, ''occlusion'')"
  using select_topic_rule [of "''How do I add teleport locomotion in Unity VR?''"]
        select_topic_rule [of "''grab interaction''"]
  by (simp add: UNITY_KNOWLEDGE_def)

lemma generate_response_Unity:
  "generate_response q ''Unity'' = static_response q ''Unity'' UNITY_KNOWLEDGE_teleport"
  by (simp add: generate_response_def select_topic_def UNITY_KNOWLEDGE_def)

lemma generate_response_Unreal:
  "generate_response q ''Unreal'' = static_response q ''Unreal'' UNREAL_KNOWLEDGE_multiplayer"
  by (simp add: generate_response_def select_topic_def UNREAL_KNOWLEDGE_def)

lemma generate_response_Shader:
  "generate_response q ''Shader'' = static_response q ''Shader'' SHADER_KNOWLEDGE_occlusion"
  by (simp add: generate_response_def select_topic_def SHADER_KNOWLEDGE_def)

lemma static_links_length:
  "entry \<in> {UNITY_KNOWLEDGE_teleport, UNREAL_KNOWLEDGE_multiplayer, SHADER_KNOWLEDGE_occlusion}
   \<Longrightarrow> length (r_documentation_links (static_response q c entry)) = 2"
  by (auto simp: static_response_def UNITY_KNOWLEDGE_teleport_def UNREAL_KNOWLEDGE_multiplayer_def
      SHADER_KNOWLEDGE_occlusion_def)

text \<open>
  \<^bold>\<open>C9.\<close> For every query and every category among Unity, Unreal and Shader,
  \<^verbatim>\<open>generate_response\<close> returns the response built from the static entry of that
  category; it is never the single-subtask response at the end of the function, whose
  only documentation link is \<^verbatim>\<open>https://docs.example.com\<close>.
\<close>

theorem generate_response_never_falls_back:
  assumes "category \<in> {''Unity'', ''Unreal'', ''Shader''}"
  shows "generate_response q category =
           static_response q category
             (if category = ''Unity'' then UNITY_KNOWLEDGE_teleport
              else if category = ''Unreal'' then UNREAL_KNOWLEDGE_multiplayer
              else SHADER_KNOWLEDGE_occlusion)
         \<and> generate_response q category \<noteq> fallback_response q category
         \<and> r_documentation_links (generate_response q category) \<noteq> [''https://docs.example.com'']"
proof -
  let ?e = "if category = ''Unity'' then UNITY_KNOWLEDGE_teleport
              else if category = ''Unreal'' then UNREAL_KNOWLEDGE_multiplayer
              else SHADER_KNOWLEDGE_occlusion"
  have eq: "generate_response q category = static_response q category ?e"
    using assms generate_response_Unity generate_response_Unreal generate_response_Shader
    by auto
  have len: "length (r_documentation_links (static_response q category ?e)) = 2"
    by (rule static_links_length) simp
  have "length (r_documentation_links (fallback_response q category)) = 1"
    by (simp add: fallback_response_def)
  with len eq have "generate_response q category \<noteq> fallback_response q category"
    by auto
  moreover from len eq
  have "r_documentation_links (generate_response q category) \<noteq> [''https://docs.example.com'']"
    by auto
  ultimately show ?thesis using eq by blast
qed

theorem generate_response_never_falls_back_witness:
  "''Unreal'' \<in> {''Unity'', ''Unreal'', ''Shader''}
   \<and> generate_response ''VR pawn setup in UE5'' ''Unreal''
       = static_response ''VR pawn setup in UE5'' ''Unreal'' UNREAL_KNOWLEDGE_multiplayer
   \<and> r_documentation_links (generate_response ''VR pawn setup in UE5'' ''Unreal'')
       \<noteq> [''https://docs.example.com'']"
proof -
  have m: "''Unreal'' \<in> {''Unity'', ''Unreal'', ''Shader''}"
    by simp
  have e: "(if ''Unreal'' = ''Unity'' then UNITY_KNOWLEDGE_teleport
            else if ''Unreal'' = ''Unreal'' then UNREAL_KNOWLEDGE_multiplayer
            else SHADER_KNOWLEDGE_occlusion) = UNREAL_KNOWLEDGE_multiplayer"
    by simp
  note t = generate_response_never_falls_back [OF m, of "''VR pawn setup in UE5''"]
  from t [unfolded e] m show ?thesis
    by blast
qed

subsection \<open>Response Validator\<close>

text \<open>
  \<^bold>\<open>C1.\<close> The three demo queries are classified Unity, Unreal and Shader, and their
  responses have difficulty 3, 3 and 4 and two documentation links each; but none of
  the three responses passes \<^verbatim>\<open>schemas.CodeXRResponse\<close>: each has one subtask whose
  description holds none of the actionable verbs (\<^verbatim>\<open>Set up XR Interaction Toolkit\<close>,
  \<^verbatim>\<open>Enable VR Template\<close>, \<^verbatim>\<open>Optimize for Mobile AR\<close>).
\<close>

theorem demo_responses_rejected:
  "(let q = ''How do I add teleport locomotion in Unity VR?'';
        r = generate_response q (categorize_query q)
    in r_category r = ''Unity'' \<and> r_difficulty_rating r = 3
       \<and> length (r_documentation_links r) = 2
       \<and> validate_CodeXRResponse r = [DescriptionNotActionable 0])
   \<and> (let q = ''How do I set up multiplayer in Unreal VR?'';
        r = generate_response q (categorize_query q)
    in r_category r = ''Unreal'' \<and> r_difficulty_rating r = 3
       \<and> length (r_documentation_links r) = 2
       \<and> validate_CodeXRResponse r = [DescriptionNotActionable 0])
   \<and> (let q = ''Which shader works best for AR occlusion?'';
        r = generate_response q (categorize_query q)
    in r_category r = ''Shader'' \<and> r_difficulty_rating r = 4
       \<and> length (r_documentation_links r) = 2
       \<and> validate_CodeXRResponse r = [DescriptionNotActionable 3])"
  by code_simp

subsection \<open>Error Signature Matcher\<close>

text \<open>
  \<^bold>\<open>C8.\<close> \<^verbatim>\<open>debug_error\<close> never raises. When the lowercased log contains both
  \<^verbatim>\<open>nullreferenceexception\<close> and \<^verbatim>\<open>teleportationprovider\<close> it returns the
  TeleportationProvider diagnosis, of error type \<^verbatim>\<open>NullReferenceException\<close>; for every
  other log it returns the generic diagnosis, of error type \<^verbatim>\<open>Unknown\<close>.
\<close>

theorem debug_error_cases:
  "debug_error error_log context =
     (if sublist ''nullreferenceexception'' (lower error_log)
         \<and> sublist ''teleportationprovider'' (lower error_log)
      then Inr \<lparr>
        error_type = ''NullReferenceException'',
        error_analysis = ''TeleportationProvider component is not assigned'',
        likely_fix = ''Assign TeleportationProvider in the Inspector or via script'',
        code_fix = ''teleportProvider = FindObjectOfType<TeleportationProvider>();'',
        prevention_tips = [''Always check for null references'', ''Use [RequireComponent] attribute'']\<rparr>
      else Inr \<lparr>
        error_type = ''Unknown'',
        error_analysis = ''Check Unity Console for detailed error information'',
        likely_fix = ''Review stack trace and add proper null checks'',
        code_fix = ''// Add appropriate error handling here'',
        prevention_tips = [''Enable detailed logging'', ''Use try-catch blocks'']\<rparr>)"
  by (simp add: debug_error_def Let_def getitem_def error_patterns_def generic_diagnosis_def
      str_in_sublist)

lemma debug_error_logs:
  "str_in ''nullreferenceexception'' (lower ''NullReferenceException: TeleportationProvider not set'')"
  "str_in ''teleportationprovider'' (lower ''NullReferenceException: TeleportationProvider not set'')"
  "\<not> str_in ''nullreferenceexception'' (lower ''MissingComponentException: Rigidbody is missing'')"
  by code_simp+

text \<open>
  The log of the class's docstring, and a log that names the other entry of the
  signature table.
\<close>

theorem debug_error_cases_witness:
  "(\<exists>d. debug_error ''NullReferenceException: TeleportationProvider not set'' None = Inr d
        \<and> error_type d = ''NullReferenceException'')
   \<and> (\<exists>d. debug_error ''MissingComponentException: Rigidbody is missing'' None = Inr d
        \<and> error_type d = ''Unknown'')"
  using debug_error_cases [of "''NullReferenceException: TeleportationProvider not set''" None]
        debug_error_cases [of "''MissingComponentException: Rigidbody is missing''" None]
  by (simp add: debug_error_logs [unfolded str_in_sublist])

subsection \<open>Offline Document Index\<close>

lemma setup_phase2_rag_fresh:
  "setup_phase2_rag ''2025-01-01 00:00:00'' initialize_database = Inr sample_db"
  by code_simp

lemma next_id_above:
  assumes "row \<in> set rows"
  shows "doc_id row < next_id rows"
proof -
  have "fold max (map doc_id rows) 0 = Max (set (0 # map doc_id rows))"
    by (rule Max.set_eq_fold [symmetric])
  moreover have "doc_id row \<le> Max (set (0 # map doc_id rows))"
    using assms by (intro Max_ge) auto
  ultimately show ?thesis
    by (simp add: next_id_def)
qed

lemma like_percent_Cons: "like ps s \<Longrightarrow> like (CHR ''%'' # ps) s"
  by (cases s) auto

lemma like_percent: "like ''%'' s"
  by (induction s) auto

lemma like_percent3: "like ''%%%'' s"
  by (intro like_percent_Cons like_percent)

lemma like_underscore: "like ''%_%'' s = (s \<noteq> [])"
proof (induction s)
  case Nil
  show ?case by simp
next
  case (Cons c cs)
  show ?case using like_percent [of cs] by simp
qed

lemma like_literal_prefix:
  "CHR ''%'' \<notin> set q \<Longrightarrow> CHR ''_'' \<notin> set q \<Longrightarrow>
   like (q @ ''%'') s = prefix (map sql_fold q) (map sql_fold s)"
proof (induction q arbitrary: s)
  case Nil
  then show ?case using like_percent by simp
next
  case (Cons p ps)
  then show ?case by (cases s) auto
qed

lemma like_contains_str_in:
  assumes "CHR ''%'' \<notin> set q" "CHR ''_'' \<notin> set q"
  shows "like (''%'' @ q @ ''%'') s = str_in (map sql_fold q) (map sql_fold s)"
proof (induction s)
  case Nil
  show ?case using like_literal_prefix [OF assms, of "[]"] by simp
next
  case (Cons c cs)
  show ?case using Cons like_literal_prefix [OF assms, of "c # cs"] by simp
qed

lemma like_contains:
  "CHR ''%'' \<notin> set q \<Longrightarrow> CHR ''_'' \<notin> set q \<Longrightarrow> like (''%'' @ q @ ''%'') s = contains_ci q s"
  using like_contains_str_in [of q s] by (simp add: str_in_sublist contains_ci_def)

lemma c_string_free: "CHR 0x00 \<notin> set s \<Longrightarrow> c_string s = s"
  by (auto simp: c_string_def)

lemma c_string_pattern:
  "CHR 0x00 \<notin> set q \<Longrightarrow> c_string (''%'' @ q @ ''%'') = ''%'' @ q @ ''%''"
  by (rule c_string_free) simp

lemma c_string_wildcards:
  "c_string ''%%%'' = ''%%%''"
  "c_string ''%_%'' = ''%_%''"
  by (simp_all add: c_string_def)

lemma contains_ci_c_string:
  assumes "contains_ci q (c_string s)"
  shows "contains_ci q s"
proof -
  from assms obtain ps ss where a: "map sql_fold (c_string s) = ps @ map sql_fold q @ ss"
    unfolding contains_ci_def sublist_def by blast
  have "s = c_string s @ dropWhile (\<lambda>c. c \<noteq> CHR 0x00) s"
    by (simp add: c_string_def)
  then have "map sql_fold s = map sql_fold (c_string s) @ map sql_fold (dropWhile (\<lambda>c. c \<noteq> CHR 0x00) s)"
    by (metis map_append)
  with a have "map sql_fold s = ps @ map sql_fold q @ (ss @ map sql_fold (dropWhile (\<lambda>c. c \<noteq> CHR 0x00) s))"
    by simp
  then show ?thesis
    unfolding contains_ci_def sublist_def by blast
qed

lemma sql_like_contains:
  assumes "CHR ''%'' \<notin> set q" "CHR ''_'' \<notin> set q" "CHR 0x00 \<notin> set q"
    and "sql_like (''%'' @ q @ ''%'') s"
  shows "contains_ci q s"
proof -
  from assms(4) have "like (''%'' @ q @ ''%'') (c_string s)"
    unfolding sql_like_def c_string_pattern [OF assms(3)] .
  then have "contains_ci q (c_string s)"
    unfolding like_contains [OF assms(1,2)] .
  then show ?thesis by (rule contains_ci_c_string)
qed

lemma text_clause_percent: "text_clause ''%'' row"
  using like_percent3 by (simp add: text_clause_def Let_def sql_like_def c_string_wildcards)

lemma text_clause_underscore:
  "text_clause ''_'' row = (c_string (doc_content row) \<noteq> [] \<or> c_string (doc_title row) \<noteq> [])"
  using like_underscore by (simp add: text_clause_def Let_def sql_like_def c_string_wildcards)

lemma text_clause_plain:
  assumes "CHR ''%'' \<notin> set q" "CHR ''_'' \<notin> set q" "CHR 0x00 \<notin> set q" "text_clause q row"
  shows "contains_ci q (doc_title row) \<or> contains_ci q (doc_content row)"
proof -
  from assms(4) have "sql_like (''%'' @ q @ ''%'') (doc_content row)
      \<or> sql_like (''%'' @ q @ ''%'') (doc_title row)"
    by (simp add: text_clause_def Let_def)
  then show ?thesis
    using sql_like_contains [OF assms(1,2,3)] by blast
qed

lemma utf8_length_append: "utf8_length (xs @ ys) = utf8_length xs + utf8_length ys"
  by (simp add: utf8_length_def)

lemma utf8_length_replicate_a: "utf8_length (replicate n (CHR ''a'')) = int n"
  by (induction n) (simp_all add: utf8_length_def)

lemma utf8_length_pattern: "utf8_length (CHR ''%'' # q @ ''%'') = utf8_length q + 2"
  by (simp add: utf8_length_def)

lemma order_by_id_desc_sorted:
  "sorted_wrt (\<lambda>a b. doc_id b \<le> doc_id a) (order_by_id_desc rows)"
proof -
  have "sorted (map doc_id (sort_key doc_id rows))"
    by (rule sorted_sort_key)
  then have "sorted_wrt (\<lambda>a b. doc_id a \<le> doc_id b) (sort_key doc_id rows)"
    by (simp add: sorted_wrt_map)
  then show ?thesis
    by (simp add: order_by_id_desc_def sorted_wrt_rev)
qed

lemma sql_limit_sorted:
  "sorted_wrt P rows \<Longrightarrow> sorted_wrt P (sql_limit k rows)"
  by (simp add: sql_limit_def sorted_wrt_take)

lemma sql_limit_subset: "set (sql_limit k rows) \<subseteq> set rows"
  by (auto simp: sql_limit_def dest: in_set_takeD)

lemma sql_limit_length: "0 \<le> k \<Longrightarrow> length (sql_limit k rows) \<le> nat k"
  by (simp add: sql_limit_def)

lemma set_order_by_id_desc: "set (order_by_id_desc rows) = set rows"
  by (simp add: order_by_id_desc_def)

lemma row_result_fields:
  "res_id (row_result row) = doc_id row"
  "res_title (row_result row) = doc_title row"
  "res_content (row_result row) = doc_content row"
  "res_category (row_result row) = doc_category row"
  by (simp_all add: row_result_def)

lemma selected_sorted:
  "sorted_wrt (\<lambda>a b. res_id b \<le> res_id a) (map row_result (select_documents db q c k))"
proof -
  have "sorted_wrt (\<lambda>a b. doc_id b \<le> doc_id a) (select_documents db q c k)"
    unfolding select_documents_def by (intro sql_limit_sorted order_by_id_desc_sorted)
  then show ?thesis
    unfolding sorted_wrt_map row_result_fields .
qed

lemma selected_from_rows:
  assumes "row \<in> set (select_documents db q c k)"
  shows "row \<in> set (documents db) \<and> category_clause c row \<and> text_clause q row"
proof -
  from assms have "row \<in> set (order_by_id_desc (filter (where_clause q c) (documents db)))"
    unfolding select_documents_def using sql_limit_subset by (rule rev_subsetD)
  then have "row \<in> set (filter (where_clause q c) (documents db))"
    unfolding set_order_by_id_desc .
  then show ?thesis
    by (simp add: where_clause_def)
qed

lemma selected_length: "0 \<le> k \<Longrightarrow> length (select_documents db q c k) \<le> nat k"
  unfolding select_documents_def by (rule sql_limit_length)

lemma selected_empty: "documents db = [] \<Longrightarrow> select_documents db q c k = []"
  by (simp add: select_documents_def order_by_id_desc_def sql_limit_def)

lemma category_clause_filter:
  "category_clause c row \<Longrightarrow> c = Some x \<Longrightarrow> x \<noteq> [] \<Longrightarrow> doc_category row = x"
  by (simp add: category_clause_def)

lemma parameters_bound:
  assumes "- (2 ^ 63) \<le> k" and "k < 2 ^ 63"
    and "\<forall>x. c = Some x \<longrightarrow> utf8_length x \<le> 1000000000"
    and "utf8_length pat \<le> 1000000000"
  shows "first_error ((case c of None \<Rightarrow> [] | Some x \<Rightarrow> if x \<noteq> [] then [bind_text x] else [])
           @ [bind_text pat, bind_text pat, bind_int k]) = None"
  using assms by (cases c) (simp_all add: bind_text_def bind_int_def)

lemma retrieve_relevant_docs_Inr:
  assumes "- (2 ^ 63) \<le> k" and "k < 2 ^ 63"
    and "\<forall>x. c = Some x \<longrightarrow> utf8_length x \<le> 1000000000"
    and "utf8_length (''%'' @ q @ ''%'') \<le> 1000000000"
    and "utf8_length (''%'' @ q @ ''%'') \<le> 50000 \<or> k = 0
         \<or> filter (category_clause c) (documents db) = []"
  shows "retrieve_relevant_docs db q c k = (Inr (map row_result (select_documents db q c k)), db)"
proof -
  note b = parameters_bound [OF assms(1,2,3,4)]
  from assms(5) have "\<not> (k \<noteq> 0 \<and> filter (category_clause c) (documents db) \<noteq> []
      \<and> 50000 < utf8_length (''%'' @ q @ ''%''))"
    by auto
  with b show ?thesis
    unfolding retrieve_relevant_docs_def Let_def by simp
qed

lemma retrieve_relevant_docs_snd: "snd (retrieve_relevant_docs db q c k) = db"
  unfolding retrieve_relevant_docs_def Let_def by (simp split: option.split)

lemma contains_query_str_in [code]:
  "contains_query q r = (str_in q (res_title r) \<or> str_in q (res_content r))"
  by (simp add: contains_query_def str_in_sublist)

lemma contains_ci_str_in [code]:
  "contains_ci q s = str_in (map sql_fold q) (map sql_fold s)"
  by (simp add: contains_ci_def str_in_sublist)

lemma sample_plain_query:
  "map_sum id (map res_id) (fst (retrieve_relevant_docs sample_db ''unity vr'' None 5)) = Inr [1]"
  "map_sum id (map (contains_query_ci ''unity vr''))
     (fst (retrieve_relevant_docs sample_db ''unity vr'' None 5)) = Inr [True]"
  "fst (retrieve_relevant_docs initialize_database ''unity vr'' None 5) = Inr []"
  by code_simp+

lemma sample_wildcard_query:
  "map_sum id (map res_id) (fst (retrieve_relevant_docs sample_db ''Unity_VR'' None 5)) = Inr [1]"
  "map_sum id (map (contains_query_ci ''Unity_VR''))
     (fst (retrieve_relevant_docs sample_db ''Unity_VR'' None 5)) = Inr [False]"
  by code_simp+

lemma sample_nul_query:
  "map_sum id (map res_id)
     (fst (retrieve_relevant_docs sample_db (''NavMesh.'' @ [CHR 0x00] @ ''zzz'') None 5)) = Inr [1]"
  "map_sum id (map (contains_query_ci (''NavMesh.'' @ [CHR 0x00] @ ''zzz'')))
     (fst (retrieve_relevant_docs sample_db (''NavMesh.'' @ [CHR 0x00] @ ''zzz'') None 5)) = Inr [False]"
  by code_simp+

lemma sample_other_queries:
  "map_sum id (map res_id) (fst (retrieve_relevant_docs sample_db ''VR'' None (- 1))) = Inr [2, 1]"
  "map_sum id (map res_category) (fst (retrieve_relevant_docs sample_db ''VR'' (Some []) 5))
     = Inr [''Unreal'', ''Unity'']"
  by code_simp+

lemma sample_percent_query:
  "map_sum id (map res_id) (fst (retrieve_relevant_docs sample_db ''%'' None 5)) = Inr [3, 2, 1]"
  "map_sum id (map (contains_query ''%'')) (fst (retrieve_relevant_docs sample_db ''%'' None 5))
     = Inr [False, False, False]"
  by code_simp+

lemma overflow_example:
  "fst (retrieve_relevant_docs initialize_database ''VR'' None (2 ^ 63)) = Inl OverflowError"
  by (simp add: retrieve_relevant_docs_def bind_text_def bind_int_def utf8_length_def)

lemma pattern_too_long_example:
  "fst (retrieve_relevant_docs sample_db (replicate 50001 (CHR ''a'')) None 5) = Inl OperationalError"
proof -
  have len: "utf8_length (CHR ''%'' # replicate 50001 (CHR ''a'') @ ''%'') = 50003"
    by (simp add: utf8_length_pattern utf8_length_replicate_a)
  have rows: "filter (category_clause None) (documents sample_db) \<noteq> []"
    by (simp add: category_clause_def sample_db_def)
  show ?thesis
    unfolding retrieve_relevant_docs_def Let_def
    by (simp add: len rows bind_text_def bind_int_def)
qed

lemma text_too_big_example:
  "fst (retrieve_relevant_docs initialize_database (replicate 1000000001 (CHR ''a'')) None 5) = Inl DataError"
  "fst (retrieve_relevant_docs initialize_database ''VR'' (Some (replicate 1000000001 (CHR ''a''))) 5)
     = Inl DataError"
proof -
  have len: "utf8_length (CHR ''%'' # replicate 1000000001 (CHR ''a'') @ ''%'') = 1000000003"
    by (simp add: utf8_length_pattern utf8_length_replicate_a)
  show "fst (retrieve_relevant_docs initialize_database (replicate 1000000001 (CHR ''a'')) None 5) = Inl DataError"
    unfolding retrieve_relevant_docs_def Let_def
    by (simp add: len bind_text_def)
  have ne: "replicate 1000000001 (CHR ''a'') \<noteq> []"
    by (simp only: replicate_empty)
  show "fst (retrieve_relevant_docs initialize_database ''VR'' (Some (replicate 1000000001 (CHR ''a''))) 5)
     = Inl DataError"
    unfolding retrieve_relevant_docs_def Let_def
    by (simp add: ne utf8_length_replicate_a bind_text_def)
qed

text \<open>
  \<^bold>\<open>C7\<close>, as stated, fails. On the sample database the query \<^verbatim>\<open>Unity_VR\<close> returns
  document 1, which does not contain it, even up to case: the underscore is a
  wildcard. The query made of \<^verbatim>\<open>NavMesh.\<close>, the character of code 0 and \<^verbatim>\<open>zzz\<close>
  returns document 1, which does not contain it: the pattern ends at the character of
  code 0. With \<^verbatim>\<open>top_k = -1\<close> two documents come back, and with the empty string as
  filter documents of the categories Unreal and Unity do. The call raises
  \<^verbatim>\<open>OverflowError\<close> for \<^verbatim>\<open>top_k\<close> = 2^63, also on the empty index, \<^verbatim>\<open>OperationalError\<close>
  for a query of 50001 characters, and \<^verbatim>\<open>DataError\<close> for a query or a filter of
  1000000001 characters, also on the empty index.
\<close>

theorem retrieve_substring_only_counterexample:
  "setup_phase2_rag ''2025-01-01 00:00:00'' initialize_database = Inr sample_db
   \<and> map_sum id (map res_id) (fst (retrieve_relevant_docs sample_db ''Unity_VR'' None 5)) = Inr [1]
   \<and> map_sum id (map (contains_query_ci ''Unity_VR''))
         (fst (retrieve_relevant_docs sample_db ''Unity_VR'' None 5)) = Inr [False]
   \<and> map_sum id (map res_id)
         (fst (retrieve_relevant_docs sample_db (''NavMesh.'' @ [CHR 0x00] @ ''zzz'') None 5)) = Inr [1]
   \<and> map_sum id (map (contains_query_ci (''NavMesh.'' @ [CHR 0x00] @ ''zzz'')))
         (fst (retrieve_relevant_docs sample_db (''NavMesh.'' @ [CHR 0x00] @ ''zzz'') None 5))
       = Inr [False]
   \<and> map_sum id (map res_id) (fst (retrieve_relevant_docs sample_db ''VR'' None (- 1))) = Inr [2, 1]
   \<and> map_sum id (map res_category) (fst (retrieve_relevant_docs sample_db ''VR'' (Some '''') 5))
       = Inr [''Unreal'', ''Unity'']
   \<and> fst (retrieve_relevant_docs initialize_database ''VR'' None (2 ^ 63)) = Inl OverflowError
   \<and> fst (retrieve_relevant_docs sample_db (replicate 50001 (CHR ''a'')) None 5)
       = Inl OperationalError
   \<and> fst (retrieve_relevant_docs initialize_database (replicate 1000000001 (CHR ''a'')) None 5)
       = Inl DataError
   \<and> fst (retrieve_relevant_docs initialize_database ''VR''
         (Some (replicate 1000000001 (CHR ''a''))) 5) = Inl DataError"
  by (intro conjI setup_phase2_rag_fresh sample_wildcard_query sample_nul_query
      sample_other_queries overflow_example pattern_too_long_example text_too_big_example)

text \<open>
  \<^bold>\<open>C7\<close>, amended. Let \<^verbatim>\<open>top_k\<close> be in the signed 64-bit range, and the filter and the
  pattern \<^verbatim>\<open>%query%\<close> have at most 1000000000 bytes. When the pattern has at most 50000
  bytes, or \<^verbatim>\<open>top_k\<close> is 0, or no indexed document passes the category test, retrieval
  returns without error, and it returns only indexed documents, whose category equals
  the filter when a non-empty filter is supplied, ordered by descending identifier, at
  most \<^verbatim>\<open>top_k\<close> of them when \<^verbatim>\<open>top_k\<close> is not negative; and when the query holds none
  of \<^verbatim>\<open>%\<close>, \<^verbatim>\<open>_\<close> and the character of code 0, the title or the content of each
  returned document contains the query as a substring up to the case of the letters A
  to Z. On an index into which nothing has been inserted retrieval returns the empty
  list and no error. By \<open>next_id_above\<close> a later insertion has the greater
  identifier, so descending identifiers are most-recently-indexed first.
\<close>

theorem retrieve_relevant_docs_sound:
  assumes "- (2 ^ 63) \<le> k" and "k < 2 ^ 63"
    and "\<forall>x. c = Some x \<longrightarrow> utf8_length x \<le> 1000000000"
    and "utf8_length (''%'' @ q @ ''%'') \<le> 1000000000"
  shows "(utf8_length (''%'' @ q @ ''%'') \<le> 50000 \<or> k = 0
            \<or> filter (category_clause c) (documents db) = [] \<longrightarrow>
          (\<exists>rs. fst (retrieve_relevant_docs db q c k) = Inr rs
             \<and> (\<forall>r \<in> set rs.
                   (\<exists>row \<in> set (documents db). r = row_result row)
                   \<and> (\<forall>x. c = Some x \<and> x \<noteq> [] \<longrightarrow> res_category r = x)
                   \<and> (CHR ''%'' \<notin> set q \<and> CHR ''_'' \<notin> set q \<and> CHR 0x00 \<notin> set q
                        \<longrightarrow> contains_query_ci q r))
             \<and> sorted_wrt (\<lambda>a b. res_id b \<le> res_id a) rs
             \<and> (0 \<le> k \<longrightarrow> length rs \<le> nat k)))
         \<and> (documents db = [] \<longrightarrow> fst (retrieve_relevant_docs db q c k) = Inr [])"
proof (intro conjI impI)
  assume p: "utf8_length (''%'' @ q @ ''%'') \<le> 50000 \<or> k = 0
            \<or> filter (category_clause c) (documents db) = []"
  let ?rs = "map row_result (select_documents db q c k)"
  have out: "fst (retrieve_relevant_docs db q c k) = Inr ?rs"
    unfolding retrieve_relevant_docs_Inr [OF assms p] by simp
  have each: "\<forall>r \<in> set ?rs.
                   (\<exists>row \<in> set (documents db). r = row_result row)
                   \<and> (\<forall>x. c = Some x \<and> x \<noteq> [] \<longrightarrow> res_category r = x)
                   \<and> (CHR ''%'' \<notin> set q \<and> CHR ''_'' \<notin> set q \<and> CHR 0x00 \<notin> set q
                        \<longrightarrow> contains_query_ci q r)"
  proof
    fix r assume "r \<in> set ?rs"
    then obtain row where sel: "row \<in> set (select_documents db q c k)" and r: "r = row_result row"
      by auto
    note w = selected_from_rows [OF sel]
    from w r have 1: "\<exists>row \<in> set (documents db). r = row_result row"
      by blast
    from w have 2: "\<forall>x. c = Some x \<and> x \<noteq> [] \<longrightarrow> res_category r = x"
      unfolding r row_result_fields using category_clause_filter by blast
    have 3: "CHR ''%'' \<notin> set q \<and> CHR ''_'' \<notin> set q \<and> CHR 0x00 \<notin> set q
               \<longrightarrow> contains_query_ci q r"
      unfolding contains_query_ci_def r row_result_fields
      using w text_clause_plain by blast
    from 1 2 3 show "(\<exists>row \<in> set (documents db). r = row_result row)
                   \<and> (\<forall>x. c = Some x \<and> x \<noteq> [] \<longrightarrow> res_category r = x)
                   \<and> (CHR ''%'' \<notin> set q \<and> CHR ''_'' \<notin> set q \<and> CHR 0x00 \<notin> set q
                        \<longrightarrow> contains_query_ci q r)"
      by blast
  qed
  have len: "0 \<le> k \<longrightarrow> length ?rs \<le> nat k"
    using selected_length by simp
  from out each selected_sorted [of db q c k] len
  show "\<exists>rs. fst (retrieve_relevant_docs db q c k) = Inr rs
             \<and> (\<forall>r \<in> set rs.
                   (\<exists>row \<in> set (documents db). r = row_result row)
                   \<and> (\<forall>x. c = Some x \<and> x \<noteq> [] \<longrightarrow> res_category r = x)
                   \<and> (CHR ''%'' \<notin> set q \<and> CHR ''_'' \<notin> set q \<and> CHR 0x00 \<notin> set q
                        \<longrightarrow> contains_query_ci q r))
             \<and> sorted_wrt (\<lambda>a b. res_id b \<le> res_id a) rs
             \<and> (0 \<le> k \<longrightarrow> length rs \<le> nat k)"
    by blast
next
  assume e: "documents db = []"
  then have "utf8_length (''%'' @ q @ ''%'') \<le> 50000 \<or> k = 0
            \<or> filter (category_clause c) (documents db) = []"
    by simp
  from retrieve_relevant_docs_Inr [OF assms this] selected_empty [OF e]
  show "fst (retrieve_relevant_docs db q c k) = Inr []"
    by simp
qed

lemma plain_query_facts:
  "CHR ''%'' \<notin> set ''unity vr''" "CHR ''_'' \<notin> set ''unity vr''" "CHR 0x00 \<notin> set ''unity vr''"
  "utf8_length (''%'' @ ''unity vr'' @ ''%'') = 10"
  by (simp_all add: utf8_length_def)

text \<open>The query \<^verbatim>\<open>unity vr\<close> on the sample database, and on the empty one.\<close>

theorem retrieve_relevant_docs_sound_witness:
  "- (2 ^ 63) \<le> (5::int) \<and> (5::int) < 2 ^ 63
   \<and> utf8_length (''%'' @ ''unity vr'' @ ''%'') \<le> 50000
   \<and> CHR ''%'' \<notin> set ''unity vr'' \<and> CHR ''_'' \<notin> set ''unity vr'' \<and> CHR 0x00 \<notin> set ''unity vr''
   \<and> map_sum id (map res_id) (fst (retrieve_relevant_docs sample_db ''unity vr'' None 5)) = Inr [1]
   \<and> map_sum id (map (contains_query_ci ''unity vr''))
         (fst (retrieve_relevant_docs sample_db ''unity vr'' None 5)) = Inr [True]
   \<and> documents initialize_database = []
   \<and> fst (retrieve_relevant_docs initialize_database ''unity vr'' None 5) = Inr []"
proof -
  have k: "- (2 ^ 63) \<le> (5::int)" "(5::int) < 2 ^ 63"
    by simp_all
  have c: "\<forall>x. (None :: string option) = Some x \<longrightarrow> utf8_length x \<le> 1000000000"
    by simp
  have p: "utf8_length (''%'' @ ''unity vr'' @ ''%'') \<le> 1000000000"
    and s: "utf8_length (''%'' @ ''unity vr'' @ ''%'') \<le> 50000"
    unfolding plain_query_facts(4) by simp_all
  have e: "documents initialize_database = []"
    by (simp add: initialize_database_def)
  from retrieve_relevant_docs_sound [OF k c p, of initialize_database] e
  have "fst (retrieve_relevant_docs initialize_database ''unity vr'' None 5) = Inr []"
    by blast
  with k s e plain_query_facts(1,2,3) sample_plain_query(1,2) show ?thesis
    by blast
qed

text \<open>
  \<^bold>\<open>C10.\<close> The raw query is embedded into the \<^verbatim>\<open>LIKE\<close> patterns, so \<^verbatim>\<open>%\<close> and
  \<^verbatim>\<open>_\<close> are wildcards. For \<^verbatim>\<open>top_k\<close> in the signed 64-bit range, the query \<^verbatim>\<open>%\<close>
  without a filter returns the most recent \<^verbatim>\<open>top_k\<close> of all indexed documents,
  whatever their text, and the query \<^verbatim>\<open>_\<close> returns those of all documents whose
  title or content has a character before its first character of code 0.
\<close>

theorem wildcard_query_matches_all:
  assumes "- (2 ^ 63) \<le> k" and "k < 2 ^ 63"
  shows "retrieve_relevant_docs db ''%'' None k =
           (Inr (map row_result (sql_limit k (order_by_id_desc (documents db)))), db)
         \<and> (0 \<le> k \<longrightarrow> length (sql_limit k (order_by_id_desc (documents db)))
                         = min (nat k) (length (documents db)))
         \<and> fst (retrieve_relevant_docs db ''_'' None k) =
             Inr (map row_result (sql_limit k (order_by_id_desc
               (filter (\<lambda>row. c_string (doc_content row) \<noteq> [] \<or> c_string (doc_title row) \<noteq> [])
                  (documents db)))))"
proof -
  have c: "\<forall>x. (None :: string option) = Some x \<longrightarrow> utf8_length x \<le> 1000000000"
    by simp
  have p: "utf8_length (''%'' @ ''%'' @ ''%'') \<le> 1000000000"
    "utf8_length (''%'' @ ''%'' @ ''%'') \<le> 50000 \<or> k = 0
       \<or> filter (category_clause None) (documents db) = []"
    by (simp_all add: utf8_length_def)
  have u: "utf8_length (''%'' @ ''_'' @ ''%'') \<le> 1000000000"
    "utf8_length (''%'' @ ''_'' @ ''%'') \<le> 50000 \<or> k = 0
       \<or> filter (category_clause None) (documents db) = []"
    by (simp_all add: utf8_length_def)
  have all: "where_clause ''%'' None = (\<lambda>row. True)"
    by (rule ext) (simp add: where_clause_def category_clause_def text_clause_percent)
  have eq: "retrieve_relevant_docs db ''%'' None k =
     (Inr (map row_result (sql_limit k (order_by_id_desc (documents db)))), db)"
    unfolding retrieve_relevant_docs_Inr [OF assms c p] select_documents_def all by simp
  have "length (order_by_id_desc (documents db)) = length (documents db)"
    by (simp add: order_by_id_desc_def)
  then have len: "0 \<le> k \<longrightarrow>
      length (sql_limit k (order_by_id_desc (documents db))) = min (nat k) (length (documents db))"
    by (simp add: sql_limit_def min.commute)
  have "where_clause ''_'' None =
      (\<lambda>row. c_string (doc_content row) \<noteq> [] \<or> c_string (doc_title row) \<noteq> [])"
    by (rule ext) (simp add: where_clause_def category_clause_def text_clause_underscore)
  then have us: "fst (retrieve_relevant_docs db ''_'' None k) =
             Inr (map row_result (sql_limit k (order_by_id_desc
               (filter (\<lambda>row. c_string (doc_content row) \<noteq> [] \<or> c_string (doc_title row) \<noteq> [])
                  (documents db)))))"
    unfolding retrieve_relevant_docs_Inr [OF assms c u] select_documents_def by simp
  from eq len us show ?thesis by blast
qed

text \<open>
  On the sample database the query \<^verbatim>\<open>%\<close> returns all three documents, none of which
  contains the character.
\<close>

theorem wildcard_query_matches_all_witness:
  "- (2 ^ 63) \<le> (5::int) \<and> (5::int) < 2 ^ 63 \<and> (0::int) \<le> 5
   \<and> map_sum id (map (contains_query ''%'')) (fst (retrieve_relevant_docs sample_db ''%'' None 5))
       = Inr [False, False, False]
   \<and> map_sum id (map res_id) (fst (retrieve_relevant_docs sample_db ''%'' None 5)) = Inr [3, 2, 1]
   \<and> retrieve_relevant_docs sample_db ''%'' None 5 =
       (Inr (map row_result (sql_limit 5 (order_by_id_desc (documents sample_db)))), sample_db)
   \<and> length (sql_limit 5 (order_by_id_desc (documents sample_db)))
       = min (nat 5) (length (documents sample_db))"
proof -
  have k: "- (2 ^ 63) \<le> (5::int)" "(5::int) < 2 ^ 63" "(0::int) \<le> 5"
    by simp_all
  note t = wildcard_query_matches_all [OF k(1,2), of sample_db]
  from t k(3) have "retrieve_relevant_docs sample_db ''%'' None 5 =
       (Inr (map row_result (sql_limit 5 (order_by_id_desc (documents sample_db)))), sample_db)"
    and "length (sql_limit 5 (order_by_id_desc (documents sample_db)))
       = min (nat 5) (length (documents sample_db))"
    by blast+
  with k sample_percent_query show ?thesis by blast
qed

text \<open>
  \<^bold>\<open>C3.\<close> \<^verbatim>\<open>retrieve_relevant_docs\<close> does not touch the table \<^verbatim>\<open>retrieval_cache\<close>:
  the database after the call is the database before it, so nothing is written to the
  cache, and the outcome does not depend on what the cache holds, so nothing is read
  from it. After a retrieval on the sample database the cache is still empty.
\<close>

theorem retrieve_relevant_docs_bypasses_cache:
  "snd (retrieve_relevant_docs db q c k) = db
   \<and> fst (retrieve_relevant_docs (db\<lparr>retrieval_cache := cache\<rparr>) q c k)
       = fst (retrieve_relevant_docs db q c k)
   \<and> retrieval_cache (snd (retrieve_relevant_docs sample_db ''unity vr'' None 5)) = []"
proof -
  have "fst (retrieve_relevant_docs (db\<lparr>retrieval_cache := cache\<rparr>) q c k)
       = fst (retrieve_relevant_docs db q c k)"
    unfolding retrieve_relevant_docs_def select_documents_def Let_def
    by (simp split: option.split)
  moreover have "retrieval_cache sample_db = []"
    by (simp add: sample_db_def)
  ultimately show ?thesis
    unfolding retrieve_relevant_docs_snd by blast
qed

subsection \<open>Web Search Aggregator\<close>

lemma run_tools_fail_fst:
  "\<forall>t \<in> set tools. invocation_fails now t sq \<Longrightarrow> fst (run_tools now tools sq) = []"
proof (induction tools)
  case Nil
  show ?case by simp
next
  case (Cons t ts)
  then have ih: "fst (run_tools now ts sq) = []" by simp
  from Cons.prems have f: "invocation_fails now t sq" by simp
  show ?case
  proof (cases "tool_func t sq")
    case (Inl e)
    then show ?thesis by simp
  next
    case (Inr v)
    with f have "parse_search_results now v sq = []"
      by (simp add: invocation_fails_def)
    with Inr ih show ?thesis
      by (simp add: case_prod_beta)
  qed
qed

lemma rank_and_filter_length: "length (rank_and_filter_results rs q c) \<le> 5"
  by (simp add: rank_and_filter_results_def)

lemma search_results_eq:
  "fst (search_ar_vr_docs now tools q c) =
     rank_and_filter_results
       (concat (map (\<lambda>sq. fst (run_tools now tools sq)) (take 2 (build_search_queries q c)))) q c"
  by (simp add: search_ar_vr_docs_def Let_def comp_def case_prod_beta)

text \<open>
  \<^bold>\<open>C4.\<close> For every query, category and list of tools, \<^verbatim>\<open>search_ar_vr_docs\<close> returns
  at most five results; and when every invocation of every tool fails for each of the
  enhanced queries tried, it returns the empty list. The function has no error
  result: an exception of a tool is caught by its \<^verbatim>\<open>try\<close>.
\<close>

theorem search_ar_vr_docs_bounded:
  "length (fst (search_ar_vr_docs now tools q c)) \<le> 5
   \<and> ((\<forall>sq \<in> set (take 2 (build_search_queries q c)). \<forall>t \<in> set tools. invocation_fails now t sq)
        \<longrightarrow> fst (search_ar_vr_docs now tools q c) = [])"
proof (intro conjI impI)
  show "length (fst (search_ar_vr_docs now tools q c)) \<le> 5"
    unfolding search_results_eq by (rule rank_and_filter_length)
next
  assume a: "\<forall>sq \<in> set (take 2 (build_search_queries q c)). \<forall>t \<in> set tools. invocation_fails now t sq"
  have "\<forall>sq \<in> set (take 2 (build_search_queries q c)). fst (run_tools now tools sq) = []"
    using a run_tools_fail_fst by blast
  then have none: "concat (map (\<lambda>sq. fst (run_tools now tools sq)) (take 2 (build_search_queries q c))) = []"
    by simp
  have "rank_and_filter_results [] q c = []"
    by (simp add: rank_and_filter_results_def)
  then show "fst (search_ar_vr_docs now tools q c) = []"
    unfolding search_results_eq none .
qed

lemma example_queries:
  "take 2 (build_search_queries ''teleport vr'' ''Unity'') =
     [''teleport vr Unity3D tutorial documentation'',
      ''teleport vr XR Interaction Toolkit tutorial documentation'']"
  by (simp add: build_search_queries_def)

lemma example_all_fail:
  "list_all (\<lambda>sq. list_all (\<lambda>t. invocation_fails ''now'' t sq) [serp_raising, ddg_empty])
     (take 2 (build_search_queries ''teleport vr'' ''Unity''))"
  unfolding example_queries
  by (simp add: invocation_fails_def serp_raising_def ddg_empty_def parse_search_results_def)

lemma example_hits:
  "map relevance_score (fst (search_ar_vr_docs ''now'' [serp_raising, ddg_hits] ''teleport vr'' ''Unity'')) = []"
  "map relevance_score (fst (search_ar_vr_docs ''now'' [ddg_hits] ''teleport vr'' ''Unity'')) = [14, 14, 14, 14, 14]"
  by code_simp+

text \<open>
  A provider that raises followed by one that finds nothing gives the empty list; a
  provider with four hits per query gives five results out of six parsed ones.
\<close>

theorem search_ar_vr_docs_bounded_witness:
  "list_all (\<lambda>sq. list_all (\<lambda>t. invocation_fails ''now'' t sq) [serp_raising, ddg_empty])
     (take 2 (build_search_queries ''teleport vr'' ''Unity''))
   \<and> fst (search_ar_vr_docs ''now'' [serp_raising, ddg_empty] ''teleport vr'' ''Unity'') = []
   \<and> length (fst (search_ar_vr_docs ''now'' [ddg_hits] ''teleport vr'' ''Unity'')) \<le> 5
   \<and> map relevance_score (fst (search_ar_vr_docs ''now'' [ddg_hits] ''teleport vr'' ''Unity''))
       = [14, 14, 14, 14, 14]"
proof -
  note t = search_ar_vr_docs_bounded [of "''now''" "[serp_raising, ddg_empty]" "''teleport vr''" "''Unity''"]
  from example_all_fail
  have "\<forall>sq \<in> set (take 2 (build_search_queries ''teleport vr'' ''Unity'')).
          \<forall>t \<in> set [serp_raising, ddg_empty]. invocation_fails ''now'' t sq"
    unfolding list_all_iff .
  with t have "fst (search_ar_vr_docs ''now'' [serp_raising, ddg_empty] ''teleport vr'' ''Unity'') = []"
    by blast
  moreover from search_ar_vr_docs_bounded [of "''now''" "[ddg_hits]" "''teleport vr''" "''Unity''"]
  have "length (fst (search_ar_vr_docs ''now'' [ddg_hits] ''teleport vr'' ''Unity'')) \<le> 5"
    by blast
  ultimately show ?thesis
    using example_all_fail example_hits(2) by blast
qed

text \<open>
  \<^bold>\<open>C2.\<close> With a primary provider that raises and a fallback provider that answers,
  the search returns nothing and the fallback provider is never invoked: for each of
  the two enhanced queries the only tool invoked is the one that raised. The exception
  does not abort the search (the second enhanced query is still tried), but it does
  skip the remaining providers of its enhanced query. With the fallback provider alone
  the same search returns two results. In general a raising tool ends the chain of its
  enhanced query, whatever tools follow it.
\<close>

theorem provider_exception_skips_fallback:
  "search_ar_vr_docs ''now'' [serp_raising, ddg_text] ''teleport vr'' ''Unity'' =
     ([], [(''teleport vr Unity3D tutorial documentation'', [''SERP_Search'']),
           (''teleport vr XR Interaction Toolkit tutorial documentation'', [''SERP_Search''])])
   \<and> map sr_content (fst (search_ar_vr_docs ''now'' [ddg_text] ''teleport vr'' ''Unity'')) =
       [''Unity VR teleport docs'', ''Unity VR teleport docs'']
   \<and> run_tools now (\<lparr>tool_name = n, tool_func = (\<lambda>q. Inl e)\<rparr> # ts) sq = ([], [n])"
proof -
  have "search_ar_vr_docs ''now'' [serp_raising, ddg_text] ''teleport vr'' ''Unity'' =
     ([], [(''teleport vr Unity3D tutorial documentation'', [''SERP_Search'']),
           (''teleport vr XR Interaction Toolkit tutorial documentation'', [''SERP_Search''])])"
    by code_simp
  moreover have "map sr_content (fst (search_ar_vr_docs ''now'' [ddg_text] ''teleport vr'' ''Unity'')) =
       [''Unity VR teleport docs'', ''Unity VR teleport docs'']"
    by code_simp
  moreover have "run_tools now (\<lparr>tool_name = n, tool_func = (\<lambda>q. Inl e)\<rparr> # ts) sq = ([], [n])"
    by simp
  ultimately show ?thesis by blast
qed

end
